theory Spec2Isabelle
  imports Main "HOL-Library.Word"
begin

section \<open>The push engine of libgit2 (\<^verbatim>\<open>src/push.c\<close>)\<close>

text \<open>
  A shallow embedding of \<^verbatim>\<open>src/push.c\<close>. The functions of that file are translated
  one by one. Everything they call that lives elsewhere in the library (object database,
  reference store, revision walker, pack builder, remote, transport, user callbacks) is
  a field of the record \<open>git_env\<close>: a collaborator is a function that yields the C return
  code (negative on failure) together with the value of its out-parameter.
  Return codes are C \<^verbatim>\<open>int\<close>s; the source only compares them, so they are integers here.
  Memory allocation is assumed to succeed.
\<close>

subsection \<open>Data\<close>

text \<open>An object id is 20 bytes.\<close>

type_synonym git_oid = "160 word"

text \<open>
  Modelled from the spec: \<^verbatim>\<open>git_oid_iszero\<close> and \<^verbatim>\<open>git_oid_equal\<close> (\<^verbatim>\<open>oid.h\<close>) are not
  part of the sources; an id is "all-zero" when every byte is zero, and two ids are equal
  when all their bytes are.
\<close>

definition git_oid_iszero :: "git_oid \<Rightarrow> bool" where
  "git_oid_iszero a = (a = 0)"

definition git_oid_equal :: "git_oid \<Rightarrow> git_oid \<Rightarrow> bool" where
  "git_oid_equal a b = (a = b)"

datatype git_otype = GIT_OBJ_COMMIT | GIT_OBJ_TREE | GIT_OBJ_BLOB | GIT_OBJ_TAG

text \<open>
  Modelled from the spec: the error codes of \<^verbatim>\<open>git2/errors.h\<close> are not part of the
  sources. \<open>GIT_ENOTFOUND\<close> is the code of the spec's "not found" outcomes and
  \<open>GIT_ENONFASTFORWARD\<close> the code of \<open>NonFastForward\<close>; the numbers are those of the
  library's public header. The proofs use only that both are negative and different.
\<close>

definition GIT_ENOTFOUND :: int where
  "GIT_ENOTFOUND = - 3"

definition GIT_ENONFASTFORWARD :: int where
  "GIT_ENONFASTFORWARD = - 11"

datatype git_error_t = GITERR_INVALID | GITERR_REFERENCE | GITERR_NET

text \<open>
  The fields of \<^verbatim>\<open>git_refspec\<close> that \<^verbatim>\<open>push.c\<close> reads. A \<^verbatim>\<open>char *\<close> is a string; the source
  tests \<^verbatim>\<open>src\<close> for \<^verbatim>\<open>NULL\<close> and for the empty string alike, and both are \<open>[]\<close> here.
\<close>

record git_refspec =
  src :: string
  dst :: string
  force :: bool

record push_spec =
  refspec :: git_refspec
  loid :: git_oid
  roid :: git_oid

record push_status =
  ref :: string
  msg :: "string option"

text \<open>The fields \<^verbatim>\<open>src\<close> and \<^verbatim>\<open>dst\<close> of \<^verbatim>\<open>git_push_update\<close> are \<open>upd_src\<close> and \<open>upd_dst\<close>.\<close>

record git_push_update =
  src_refname :: string
  dst_refname :: string
  upd_src :: git_oid
  upd_dst :: git_oid

record git_remote_head =
  name :: string
  oid :: git_oid

record git_object =
  git_object_id :: git_oid
  git_object_type :: git_otype

text \<open>The revision walker: the ids pushed as starting points and the ids hidden.\<close>

record git_revwalk =
  pushed :: "git_oid list"
  hidden :: "git_oid list"

text \<open>
  The session \<^verbatim>\<open>git_push\<close>. \<open>pb\<close> is the pack builder, as the list of the object ids
  inserted into it; \<open>remote_refs\<close> is \<^verbatim>\<open>push->remote->refs\<close>.
\<close>

record git_push =
  specs :: "push_spec list"
  status :: "push_status list"
  updates :: "git_push_update list"
  unpack_ok :: bool
  report_status :: bool
  pb_parallelism :: nat
  pb :: "git_oid list"
  remote_refs :: "git_remote_head list"

text \<open>
  The calls that leave the engine and change something outside the session, in the order
  they are made: error reports, user callbacks, the transport, writes to the reference
  store.
\<close>

datatype event =
    Giterr_set git_error_t string
  | Giterr_clear
  | Push_negotiation "git_push_update list"
  | Transport_push "push_spec list" "git_oid list"
  | Reference_delete string
  | Reference_create string git_oid
  | Update_tips string git_oid git_oid

text \<open>
  \<^verbatim>\<open>git_remote_callbacks\<close>: a callback that is \<^verbatim>\<open>NULL\<close> is \<open>None\<close>. A callback sees the
  calls made so far and its arguments and yields its return code.
\<close>

record git_remote_callbacks =
  pack_progress :: bool
  push_negotiation :: "(event list \<Rightarrow> git_push_update list \<Rightarrow> int) option"
  update_tips :: "(event list \<Rightarrow> string \<Rightarrow> git_oid \<Rightarrow> git_oid \<Rightarrow> int) option"

subsection \<open>Collaborators\<close>

text \<open>
  The functions \<^verbatim>\<open>push.c\<close> calls, under the names they have in C. The object database is
  read only, so its functions depend on their arguments alone. The pack builder and the
  walker are data of the model (the ids inserted, pushed and hidden), and their functions
  are given that data and say whether the call succeeds. The reference store, the user
  callbacks and the transport may depend on everything that happened before: they are
  given the calls made so far. \<open>transport_push\<close> is \<open>None\<close> for a transport without push
  support; otherwise it yields its return code, the status list and the flag
  \<^verbatim>\<open>unpack_ok\<close> it leaves in the session. \<^verbatim>\<open>git_refspec_transform\<close> is given the previous
  content of the buffer it writes to.
\<close>

record git_odb_env =
  git_odb_read_header :: "git_oid \<Rightarrow> int \<times> git_otype"
  git_odb_exists :: "git_oid \<Rightarrow> bool"
  git_object_lookup :: "git_oid \<Rightarrow> git_otype \<Rightarrow> int \<times> git_object"
  git_tag_target :: "git_object \<Rightarrow> int \<times> git_object"
  git_merge_base :: "git_oid \<Rightarrow> git_oid \<Rightarrow> int \<times> git_oid"

record git_pack_env =
  git_revwalk_new :: int
  git_revwalk_push :: "git_revwalk \<Rightarrow> git_oid \<Rightarrow> int"
  git_packbuilder_new :: int
  git_packbuilder_set_callbacks :: int
  git_packbuilder_insert :: "git_oid list \<Rightarrow> git_oid \<Rightarrow> int"
  git_packbuilder_insert_walk :: "git_oid list \<Rightarrow> git_revwalk \<Rightarrow> int \<times> git_oid list"

record git_ref_env =
  git_refspec__parse :: "string \<Rightarrow> int \<times> git_refspec"
  git_revparse_single :: "string \<Rightarrow> int"
  git_reference_name_to_id :: "string \<Rightarrow> int \<times> git_oid"
  git_reference_lookup :: "event list \<Rightarrow> string \<Rightarrow> int"
  git_reference_delete :: "event list \<Rightarrow> string \<Rightarrow> int"
  git_reference_create :: "event list \<Rightarrow> string \<Rightarrow> git_oid \<Rightarrow> int"

record git_remote_env =
  git_remote__matching_refspec :: "string \<Rightarrow> git_refspec option"
  git_refspec_transform :: "string \<Rightarrow> git_refspec \<Rightarrow> string \<Rightarrow> int \<times> string"
  git_remote_connected :: bool
  git_remote_connect :: int
  git_remote_ls :: "int \<times> git_remote_head list"
  transport_push :: "(event list \<Rightarrow> git_push \<Rightarrow> int \<times> push_status list \<times> bool) option"

record git_env =
  odb :: git_odb_env
  packer :: git_pack_env
  refdb :: git_ref_env
  remote :: git_remote_env

subsection \<open>Object-set enumeration: \<^verbatim>\<open>enqueue_tag\<close> and \<^verbatim>\<open>queue_objects\<close>\<close>

text \<open>
  The \<^verbatim>\<open>while\<close> loop of \<^verbatim>\<open>enqueue_tag\<close> (lines 243 to 252) on the locals \<^verbatim>\<open>error\<close>,
  \<^verbatim>\<open>obj\<close> and the pack builder. It follows \<^verbatim>\<open>git_tag_target\<close> for as long as the
  object is a tag, so it need not return: \<open>None\<close> is a loop that runs forever.
\<close>

partial_function (option) enqueue_tag_loop ::
  "git_env \<Rightarrow> int \<Rightarrow> git_object \<Rightarrow> git_oid list \<Rightarrow> (int \<times> git_object \<times> git_oid list) option"
where
  "enqueue_tag_loop env error obj pbl =
     (if git_object_type obj = GIT_OBJ_TAG then
        (let error = git_packbuilder_insert (packer env) pbl (git_object_id obj) in
         if error < 0 then Some (error, obj, pbl)
         else (case git_tag_target (odb env) obj of
                 (error, target) \<Rightarrow>
                   if error < 0 then Some (error, obj, pbl @ [git_object_id obj])
                   else enqueue_tag_loop env error target (pbl @ [git_object_id obj])))
      else Some (error, obj, pbl))"

text \<open>
  \<^verbatim>\<open>enqueue_tag\<close> (lines 235 to 260). The result is the return code, the object left in
  \<^verbatim>\<open>obj\<close> (stored to \<^verbatim>\<open>*out\<close> only when the code is not negative, and read by the caller
  only then) and the pack builder.
\<close>

definition enqueue_tag ::
  "git_env \<Rightarrow> git_oid list \<Rightarrow> git_oid \<Rightarrow> (int \<times> git_object \<times> git_oid list) option" where
  "enqueue_tag env pbl a =
     (case git_object_lookup (odb env) a GIT_OBJ_TAG of
        (error, obj) \<Rightarrow>
          if error < 0 then Some (error, obj, pbl)
          else enqueue_tag_loop env error obj pbl)"

text \<open>
  The locals of \<^verbatim>\<open>queue_objects\<close> that its loop changes: \<^verbatim>\<open>error\<close>, the walker \<^verbatim>\<open>rw\<close>,
  the pack builder \<^verbatim>\<open>push->pb\<close>, and the calls made so far.
\<close>

record queue_frame =
  q_error :: int
  q_rw :: git_revwalk
  q_pb :: "git_oid list"
  q_log :: "event list"

text \<open>
  How one round of a loop ends: \<open>Continue\<close> goes on with the next element, \<open>On_error\<close>
  is \<^verbatim>\<open>goto on_error\<close>; the function then returns the \<^verbatim>\<open>error\<close> of the frame.
\<close>

datatype 'a flow = Continue 'a | On_error 'a

fun frame_of :: "'a flow \<Rightarrow> 'a" where
  "frame_of (Continue f) = f"
| "frame_of (On_error f) = f"

text \<open>
  Lines 289 to 312 of \<^verbatim>\<open>queue_objects\<close>: read the type of \<^verbatim>\<open>loid\<close>, peel a tag chain,
  and hand the object to the walker or to the pack builder. Where the source jumps to
  \<^verbatim>\<open>on_error\<close> without assigning \<^verbatim>\<open>error\<close>, the frame keeps the value \<^verbatim>\<open>error\<close> had.
\<close>

definition seed_spec :: "git_env \<Rightarrow> push_spec \<Rightarrow> queue_frame \<Rightarrow> queue_frame flow option" where
  "seed_spec env spec f =
     (case git_odb_read_header (odb env) (loid spec) of
        (rc, type) \<Rightarrow>
          if rc < 0 then Some (On_error f)
          else if type = GIT_OBJ_TAG then
            (case enqueue_tag env (q_pb f) (loid spec) of
               None \<Rightarrow> None
             | Some (error, target, pbl) \<Rightarrow>
                 if error < 0 then Some (On_error (f\<lparr>q_error := error, q_pb := pbl\<rparr>))
                 else if git_object_type target = GIT_OBJ_COMMIT then
                   (if git_revwalk_push (packer env) (q_rw f) (git_object_id target) < 0
                    then Some (On_error (f\<lparr>q_error := error, q_pb := pbl\<rparr>))
                    else Some (Continue (f\<lparr>q_error := error, q_pb := pbl,
                           q_rw := (q_rw f)\<lparr>pushed := pushed (q_rw f) @ [git_object_id target]\<rparr>\<rparr>)))
                 else
                   (if git_packbuilder_insert (packer env) pbl (git_object_id target) < 0
                    then Some (On_error (f\<lparr>q_error := error, q_pb := pbl\<rparr>))
                    else Some (Continue (f\<lparr>q_error := error,
                           q_pb := pbl @ [git_object_id target]\<rparr>))))
          else if git_revwalk_push (packer env) (q_rw f) (loid spec) < 0 then Some (On_error f)
          else Some (Continue (f\<lparr>q_rw := (q_rw f)\<lparr>pushed := pushed (q_rw f) @ [loid spec]\<rparr>\<rparr>)))"

text \<open>Lines 314 to 340 of \<^verbatim>\<open>queue_objects\<close>: the fast-forward check.\<close>

definition check_fastforward :: "git_env \<Rightarrow> push_spec \<Rightarrow> queue_frame \<Rightarrow> queue_frame flow" where
  "check_fastforward env spec f =
     (if \<not> force (refspec spec) then
        (if git_oid_iszero (roid spec) then Continue f
         else if \<not> git_odb_exists (odb env) (roid spec) then
           On_error (f\<lparr>q_error := GIT_ENONFASTFORWARD,
             q_log := q_log f @ [Giterr_set GITERR_REFERENCE
               ''Cannot push because a reference that you are trying to update on the remote contains commits that are not present locally.'']\<rparr>)
         else
           (case git_merge_base (odb env) (loid spec) (roid spec) of
              (error, base) \<Rightarrow>
                if error = GIT_ENOTFOUND \<or> (error = 0 \<and> \<not> git_oid_equal base (roid spec)) then
                  On_error (f\<lparr>q_error := GIT_ENONFASTFORWARD,
                    q_log := q_log f @ [Giterr_set GITERR_REFERENCE
                      ''Cannot push non-fastforwardable reference'']\<rparr>)
                else if error < 0 then On_error (f\<lparr>q_error := error\<rparr>)
                else Continue (f\<lparr>q_error := error\<rparr>)))
      else Continue f)"

text \<open>The body of the loop over \<^verbatim>\<open>push->specs\<close> (lines 275 to 341).\<close>

definition queue_spec :: "git_env \<Rightarrow> push_spec \<Rightarrow> queue_frame \<Rightarrow> queue_frame flow option" where
  "queue_spec env spec f =
     (if git_oid_iszero (loid spec) then Some (Continue f)
      else if git_oid_equal (loid spec) (roid spec) then Some (Continue f)
      else
        (case seed_spec env spec f of
           None \<Rightarrow> None
         | Some (On_error f') \<Rightarrow> Some (On_error f')
         | Some (Continue f') \<Rightarrow> Some (check_fastforward env spec f')))"

fun queue_objects_loop ::
  "git_env \<Rightarrow> push_spec list \<Rightarrow> queue_frame \<Rightarrow> queue_frame flow option" where
  "queue_objects_loop env [] f = Some (Continue f)"
| "queue_objects_loop env (spec # rest) f =
     (case queue_spec env spec f of
        None \<Rightarrow> None
      | Some (On_error f') \<Rightarrow> Some (On_error f')
      | Some (Continue f') \<Rightarrow> queue_objects_loop env rest f')"

text \<open>
  The loop over the advertised heads (lines 343 to 349): every head with a non-zero id is
  hidden; the return code of \<^verbatim>\<open>git_revwalk_hide\<close> is not looked at.
\<close>

fun hide_heads :: "git_remote_head list \<Rightarrow> git_revwalk \<Rightarrow> git_revwalk" where
  "hide_heads [] w = w"
| "hide_heads (head # rest) w =
     (if git_oid_iszero (oid head) then hide_heads rest w
      else hide_heads rest (w\<lparr>hidden := hidden w @ [oid head]\<rparr>))"

text \<open>
  \<^verbatim>\<open>queue_objects\<close> (lines 262 to 356): the return code, the session with its pack
  builder, and the calls made. \<open>queue_start\<close> is the frame the loop starts in:
  \<^verbatim>\<open>error = -1\<close> and a new walker.
\<close>

definition queue_start :: "git_push \<Rightarrow> event list \<Rightarrow> queue_frame" where
  "queue_start push log =
     \<lparr>q_error = - 1, q_rw = \<lparr>pushed = [], hidden = []\<rparr>, q_pb = pb push, q_log = log\<rparr>"

definition queue_objects ::
  "git_env \<Rightarrow> git_push \<Rightarrow> event list \<Rightarrow> (int \<times> git_push \<times> event list) option" where
  "queue_objects env push log =
     (if git_revwalk_new (packer env) < 0 then Some (- 1, push, log)
      else
        (case queue_objects_loop env (specs push) (queue_start push log) of
           None \<Rightarrow> None
         | Some (On_error f) \<Rightarrow> Some (q_error f, push\<lparr>pb := q_pb f\<rparr>, q_log f)
         | Some (Continue f) \<Rightarrow>
             (case git_packbuilder_insert_walk (packer env) (q_pb f)
                     (hide_heads (remote_refs push) (q_rw f)) of
                (error, pbl) \<Rightarrow> Some (error, push\<lparr>pb := pbl\<rparr>, q_log f))))"

subsection \<open>Adding refspecs: \<^verbatim>\<open>parse_refspec\<close> and \<^verbatim>\<open>git_push_add_refspec\<close>\<close>

text \<open>\<^verbatim>\<open>git_push_new\<close> (lines 32 to 66) for a remote whose head list is \<open>heads\<close>.\<close>

definition git_push_new :: "git_remote_head list \<Rightarrow> git_push" where
  "git_push_new heads =
     \<lparr>specs = [], status = [], updates = [], unpack_ok = False, report_status = True,
      pb_parallelism = 1, pb = [], remote_refs = heads\<rparr>"

text \<open>
  Modelled from the spec: \<^verbatim>\<open>git__prefixcmp\<close> (\<^verbatim>\<open>util.h\<close>) is not part of the sources; it
  is zero exactly when the string starts with the prefix.
\<close>

definition git__prefixcmp :: "string \<Rightarrow> string \<Rightarrow> int" where
  "git__prefixcmp str pre = (if take (length pre) str = pre then 0 else 1)"

text \<open>The \<^verbatim>\<open>'%s'\<close> of the error messages: the string between two apostrophes.\<close>

definition quoted :: "string \<Rightarrow> string" where
  "quoted str = [CHR 0x27] @ str @ [CHR 0x27]"

text \<open>\<^verbatim>\<open>check_rref\<close> (lines 89 to 97).\<close>

definition check_rref :: "string \<Rightarrow> event list \<Rightarrow> int \<times> event list" where
  "check_rref r log =
     (if git__prefixcmp r ''refs/'' \<noteq> 0
      then (- 1, log @ [Giterr_set GITERR_INVALID (''Not a valid reference '' @ quoted r)])
      else (0, log))"

text \<open>\<^verbatim>\<open>check_lref\<close> (lines 99 to 115).\<close>

definition check_lref :: "git_env \<Rightarrow> string \<Rightarrow> event list \<Rightarrow> int \<times> event list" where
  "check_lref env r log =
     (let error = git_revparse_single (refdb env) r in
      if error = 0 then (0, log)
      else if error = GIT_ENOTFOUND then
        (- 1, log @ [Giterr_set GITERR_REFERENCE
           (''src refspec '' @ quoted r @ '' does not match any existing object'')])
      else (- 1, log @ [Giterr_set GITERR_INVALID (''Not a valid reference '' @ quoted r)]))"

text \<open>
  \<^verbatim>\<open>parse_refspec\<close> (lines 117 to 145). The spec is allocated with \<^verbatim>\<open>git__calloc\<close>, so
  both of its object ids start all-zero.
\<close>

definition parse_refspec ::
  "git_env \<Rightarrow> string \<Rightarrow> event list \<Rightarrow> int \<times> push_spec option \<times> event list" where
  "parse_refspec env str log =
     (case git_refspec__parse (refdb env) str of
        (rc, rs) \<Rightarrow>
          if rc < 0 then (- 1, None, log @ [Giterr_set GITERR_INVALID (''invalid refspec '' @ str)])
          else if src rs \<noteq> [] \<and> fst (check_lref env (src rs) log) < 0
            then (- 1, None, snd (check_lref env (src rs) log))
          else if fst (check_rref (dst rs) log) < 0 then (- 1, None, snd (check_rref (dst rs) log))
          else (0, Some \<lparr>refspec = rs, loid = 0, roid = 0\<rparr>, log))"

text \<open>\<^verbatim>\<open>git_push_add_refspec\<close> (lines 147 to 156); \<^verbatim>\<open>git_vector_insert\<close> appends.\<close>

definition git_push_add_refspec ::
  "git_env \<Rightarrow> git_push \<Rightarrow> string \<Rightarrow> event list \<Rightarrow> int \<times> git_push \<times> event list" where
  "git_push_add_refspec env push str log =
     (case parse_refspec env str log of
        (rc, Some spec, log') \<Rightarrow>
          if rc < 0 then (- 1, push, log') else (0, push\<lparr>specs := specs push @ [spec]\<rparr>, log')
      | (rc, None, log') \<Rightarrow> (- 1, push, log'))"

subsection \<open>Work resolution: \<^verbatim>\<open>add_update\<close> and \<^verbatim>\<open>calculate_work\<close>\<close>

text \<open>\<^verbatim>\<open>add_update\<close> (lines 358 to 373): the record appended to \<^verbatim>\<open>push->updates\<close>.\<close>

definition add_update :: "push_spec \<Rightarrow> git_push_update" where
  "add_update spec =
     \<lparr>src_refname = src (refspec spec), dst_refname = dst (refspec spec),
      upd_src = roid spec, upd_dst = loid spec\<rparr>"

text \<open>
  The inner loop of \<^verbatim>\<open>calculate_work\<close> (lines 394 to 399): the id of the first advertised
  head whose name is \<^verbatim>\<open>dst\<close> is copied to \<^verbatim>\<open>roid\<close>.
\<close>

fun copy_remote_oid :: "git_remote_head list \<Rightarrow> push_spec \<Rightarrow> push_spec" where
  "copy_remote_oid [] spec = spec"
| "copy_remote_oid (head # rest) spec =
     (if dst (refspec spec) = name head then spec\<lparr>roid := oid head\<rparr>
      else copy_remote_oid rest spec)"

text \<open>
  The outer loop of \<^verbatim>\<open>calculate_work\<close> (lines 383 to 403) over the specs not yet visited.
  The result is the return code, the specs as the loop leaves them, the list
  \<^verbatim>\<open>push->updates\<close> and the calls made.
\<close>

fun calculate_work_loop ::
  "git_env \<Rightarrow> git_remote_head list \<Rightarrow> push_spec list \<Rightarrow> git_push_update list \<Rightarrow> event list \<Rightarrow>
   int \<times> push_spec list \<times> git_push_update list \<times> event list" where
  "calculate_work_loop env heads [] ups log = (0, [], ups, log)"
| "calculate_work_loop env heads (spec # rest) ups log =
     (if src (refspec spec) \<noteq> [] \<and>
         fst (git_reference_name_to_id (refdb env) (src (refspec spec))) < 0
      then (- 1, spec # rest, ups,
            log @ [Giterr_set GITERR_REFERENCE (''No such reference '' @ quoted (src (refspec spec)))])
      else
        (let spec1 = (if src (refspec spec) \<noteq> []
                      then spec\<lparr>loid := snd (git_reference_name_to_id (refdb env) (src (refspec spec)))\<rparr>
                      else spec);
             spec2 = copy_remote_oid heads spec1
         in case calculate_work_loop env heads rest (ups @ [add_update spec2]) log of
              (rc, rest', ups', log') \<Rightarrow> (rc, spec2 # rest', ups', log')))"

text \<open>\<^verbatim>\<open>calculate_work\<close> (lines 375 to 406).\<close>

definition calculate_work :: "git_env \<Rightarrow> git_push \<Rightarrow> event list \<Rightarrow> int \<times> git_push \<times> event list" where
  "calculate_work env push log =
     (case calculate_work_loop env (remote_refs push) (specs push) (updates push) log of
        (rc, specs', ups', log') \<Rightarrow> (rc, push\<lparr>specs := specs', updates := ups'\<rparr>, log'))"

subsection \<open>Orchestration: \<^verbatim>\<open>do_push\<close>, \<^verbatim>\<open>filter_refs\<close> and \<^verbatim>\<open>git_push_finish\<close>\<close>

text \<open>
  Modelled from the spec: the pack builder is not part of the sources. The session holds
  it for one push attempt; \<^verbatim>\<open>git_packbuilder_new\<close> gives an empty one and
  \<^verbatim>\<open>git_packbuilder_free\<close> releases it, so that no object stays queued in the session.
\<close>

definition git_packbuilder_free :: "git_push \<Rightarrow> git_push" where
  "git_packbuilder_free push = push\<lparr>pb := []\<rparr>"

text \<open>
  Lines 442 to 444 of \<^verbatim>\<open>do_push\<close>: enumerate, then hand over to the transport, which
  fills in the status list and the flag \<^verbatim>\<open>unpack_ok\<close>.
\<close>

definition send_objects ::
  "git_env \<Rightarrow> (event list \<Rightarrow> git_push \<Rightarrow> int \<times> push_status list \<times> bool) \<Rightarrow> git_push \<Rightarrow> event list \<Rightarrow>
   (int \<times> git_push \<times> event list) option" where
  "send_objects env tpush push log =
     (case queue_objects env push log of
        None \<Rightarrow> None
      | Some (error, push', log') \<Rightarrow>
          if error < 0 then Some (error, push', log')
          else
            (case tpush log' push' of
               (error', st, ok) \<Rightarrow>
                 Some (error', push'\<lparr>status := st, unpack_ok := ok\<rparr>,
                       log' @ [Transport_push (specs push') (pb push')])))"

text \<open>
  Lines 437 to 444 of \<^verbatim>\<open>do_push\<close>: the negotiation callback, when there is one, then
  \<open>send_objects\<close>.
\<close>

definition negotiate_and_send ::
  "git_env \<Rightarrow> (event list \<Rightarrow> git_push \<Rightarrow> int \<times> push_status list \<times> bool) \<Rightarrow>
   git_remote_callbacks option \<Rightarrow> git_push \<Rightarrow> event list \<Rightarrow> (int \<times> git_push \<times> event list) option" where
  "negotiate_and_send env tpush callbacks push log =
     (case Option.bind callbacks push_negotiation of
        None \<Rightarrow> send_objects env tpush push log
      | Some cb \<Rightarrow>
          if cb log (updates push) < 0
          then Some (cb log (updates push), push, log @ [Push_negotiation (updates push)])
          else send_objects env tpush push (log @ [Push_negotiation (updates push)]))"

text \<open>\<^verbatim>\<open>do_push\<close> (lines 408 to 449); every path ends in \<^verbatim>\<open>git_packbuilder_free\<close>.\<close>

definition do_push ::
  "git_env \<Rightarrow> git_remote_callbacks option \<Rightarrow> git_push \<Rightarrow> event list \<Rightarrow>
   (int \<times> git_push \<times> event list) option" where
  "do_push env callbacks push log =
     (case transport_push (remote env) of
        None \<Rightarrow>
          Some (- 1, git_packbuilder_free push,
                log @ [Giterr_set GITERR_NET ''Remote transport doesn't support push''])
      | Some tpush \<Rightarrow>
          if git_packbuilder_new (packer env) < 0
          then Some (git_packbuilder_new (packer env), git_packbuilder_free push, log)
          else if (case callbacks of None \<Rightarrow> False | Some c \<Rightarrow> pack_progress c) \<and>
                  git_packbuilder_set_callbacks (packer env) < 0
          then Some (git_packbuilder_set_callbacks (packer env), git_packbuilder_free push, log)
          else
            (case calculate_work env (push\<lparr>pb := []\<rparr>) log of
               (error, push1, log1) \<Rightarrow>
                 if error < 0 then Some (error, git_packbuilder_free push1, log1)
                 else
                   (case negotiate_and_send env tpush callbacks push1 log1 of
                      None \<Rightarrow> None
                    | Some (error', push2, log2) \<Rightarrow>
                        Some (error', git_packbuilder_free push2, log2))))"

text \<open>\<^verbatim>\<open>filter_refs\<close> (lines 451 to 467).\<close>

definition filter_refs :: "git_env \<Rightarrow> git_push \<Rightarrow> int \<times> git_push" where
  "filter_refs env push =
     (case git_remote_ls (remote env) of
        (rc, heads) \<Rightarrow>
          if rc < 0 then (- 1, push\<lparr>remote_refs := []\<rparr>)
          else (0, push\<lparr>remote_refs := heads\<rparr>))"

text \<open>\<^verbatim>\<open>git_push_finish\<close> (lines 469 to 487).\<close>

definition git_push_finish ::
  "git_env \<Rightarrow> git_remote_callbacks option \<Rightarrow> git_push \<Rightarrow> event list \<Rightarrow>
   (int \<times> git_push \<times> event list) option" where
  "git_push_finish env callbacks push log =
     (if \<not> git_remote_connected (remote env) \<and> git_remote_connect (remote env) < 0
      then Some (git_remote_connect (remote env), push, log)
      else
        (case filter_refs env push of
           (error, push1) \<Rightarrow>
             if error < 0 then Some (error, push1, log)
             else
               (case do_push env callbacks push1 log of
                  None \<Rightarrow> None
                | Some (error', push2, log2) \<Rightarrow>
                    if error' < 0 then Some (error', push2, log2)
                    else if \<not> unpack_ok push2
                    then Some (- 1, push2,
                           log2 @ [Giterr_set GITERR_NET
                             ''unpacking the sent packfile failed on the remote''])
                    else Some (error', push2, log2))))"

subsection \<open>Tip reconciliation: \<^verbatim>\<open>git_push_update_tips\<close>\<close>

text \<open>
  The locals of \<^verbatim>\<open>git_push_update_tips\<close> that its loop changes: \<^verbatim>\<open>error\<close>, the buffer
  \<^verbatim>\<open>remote_ref_name\<close>, and the calls made so far.
\<close>

record tips_frame =
  t_error :: int
  remote_ref_name :: string
  t_log :: "event list"

text \<open>
  The inner loop (lines 184 to 187): the first spec whose destination is the ref of the
  status; \<open>None\<close> when the loop runs to the end (\<^verbatim>\<open>j == push->specs.length\<close>).
\<close>

fun find_push_spec :: "push_spec list \<Rightarrow> string \<Rightarrow> push_spec option" where
  "find_push_spec [] r = None"
| "find_push_spec (spec # rest) r =
     (if dst (refspec spec) = r then Some spec else find_push_spec rest r)"

text \<open>Lines 193 to 205: delete the tracking ref of a deletion, create it otherwise.\<close>

definition update_remote_ref :: "git_env \<Rightarrow> push_spec \<Rightarrow> tips_frame \<Rightarrow> tips_frame" where
  "update_remote_ref env spec f =
     (if git_oid_iszero (loid spec) then
        (if git_reference_lookup (refdb env) (t_log f) (remote_ref_name f) \<ge> 0
         then f\<lparr>t_error := git_reference_delete (refdb env) (t_log f) (remote_ref_name f),
                t_log := t_log f @ [Reference_delete (remote_ref_name f)]\<rparr>
         else f\<lparr>t_error := git_reference_lookup (refdb env) (t_log f) (remote_ref_name f)\<rparr>)
      else
        f\<lparr>t_error := git_reference_create (refdb env) (t_log f) (remote_ref_name f) (loid spec),
          t_log := t_log f @ [Reference_create (remote_ref_name f) (loid spec)]\<rparr>)"

text \<open>
  Lines 207 to 221: an error other than \<open>GIT_ENOTFOUND\<close> ends the function;
  \<open>GIT_ENOTFOUND\<close> is cleared and switches the callback off (\<^verbatim>\<open>fire_callback = 0\<close>);
  otherwise the callback, when there is one, is called, and a negative return ends the
  function.
\<close>

definition fire_update_tips ::
  "git_remote_callbacks option \<Rightarrow> push_spec \<Rightarrow> tips_frame \<Rightarrow> tips_frame flow" where
  "fire_update_tips callbacks spec f =
     (if t_error f < 0 then
        (if t_error f \<noteq> GIT_ENOTFOUND then On_error f
         else Continue (f\<lparr>t_log := t_log f @ [Giterr_clear]\<rparr>))
      else
        (case Option.bind callbacks update_tips of
           None \<Rightarrow> Continue f
         | Some cb \<Rightarrow>
             (let f' = f\<lparr>t_error := cb (t_log f) (remote_ref_name f) (roid spec) (loid spec),
                         t_log := t_log f @ [Update_tips (remote_ref_name f) (roid spec) (loid spec)]\<rparr>
              in if t_error f' < 0 then On_error f' else Continue f')))"

text \<open>The body of the loop over \<^verbatim>\<open>push->status\<close> (lines 168 to 222).\<close>

definition update_tip ::
  "git_env \<Rightarrow> git_remote_callbacks option \<Rightarrow> git_push \<Rightarrow> push_status \<Rightarrow> tips_frame \<Rightarrow>
   tips_frame flow" where
  "update_tip env callbacks push st f =
     (if msg st \<noteq> None then Continue f
      else
        (case git_remote__matching_refspec (remote env) (ref st) of
           None \<Rightarrow> Continue f
         | Some fetch_spec \<Rightarrow>
             (case git_refspec_transform (remote env) (remote_ref_name f) fetch_spec (ref st) of
                (error, buf) \<Rightarrow>
                  if error < 0 then On_error (f\<lparr>t_error := error, remote_ref_name := buf\<rparr>)
                  else
                    (case find_push_spec (specs push) (ref st) of
                       None \<Rightarrow> Continue (f\<lparr>t_error := error, remote_ref_name := buf\<rparr>)
                     | Some spec \<Rightarrow>
                         fire_update_tips callbacks spec
                           (update_remote_ref env spec
                              (f\<lparr>t_error := error, remote_ref_name := buf\<rparr>))))))"

fun update_tips_loop ::
  "git_env \<Rightarrow> git_remote_callbacks option \<Rightarrow> git_push \<Rightarrow> push_status list \<Rightarrow> tips_frame \<Rightarrow>
   tips_frame flow" where
  "update_tips_loop env callbacks push [] f = Continue f"
| "update_tips_loop env callbacks push (st # rest) f =
     (case update_tip env callbacks push st f of
        On_error f' \<Rightarrow> On_error f'
      | Continue f' \<Rightarrow> update_tips_loop env callbacks push rest f')"

text \<open>
  \<^verbatim>\<open>git_push_update_tips\<close> (lines 158 to 229): the return code and the calls made. When
  the loop runs to its end the function returns 0.
\<close>

definition git_push_update_tips ::
  "git_env \<Rightarrow> git_remote_callbacks option \<Rightarrow> git_push \<Rightarrow> event list \<Rightarrow> int \<times> event list" where
  "git_push_update_tips env callbacks push log =
     (case update_tips_loop env callbacks push (status push)
             \<lparr>t_error = 0, remote_ref_name = [], t_log = log\<rparr> of
        On_error f \<Rightarrow> (t_error f, t_log f)
      | Continue f \<Rightarrow> (0, t_log f))"

subsection \<open>What the specification says, in its own words\<close>

text \<open>
  Work resolution (section 4.2 of the specification) for one spec: a non-empty source is
  resolved to \<open>loid\<close>; the object id of an advertised head named like the destination is
  copied to \<open>roid\<close>, which is left alone when there is none.
\<close>

definition resolved_spec :: "git_env \<Rightarrow> git_remote_head list \<Rightarrow> push_spec \<Rightarrow> push_spec" where
  "resolved_spec env heads spec =
     spec\<lparr>loid := (if src (refspec spec) = [] then loid spec
                    else snd (git_reference_name_to_id (refdb env) (src (refspec spec)))),
          roid := (case find (\<lambda>h. name h = dst (refspec spec)) heads of
                     None \<Rightarrow> roid spec
                   | Some h \<Rightarrow> oid h)\<rparr>"


subsection \<open>An example repository\<close>

text \<open>
  Commits 1 to 4 (1 is the parent of 2; 3 and 4 are unrelated to them), the tags 17, 18
  and 19 (17 points to 18, 18 to commit 4, 19 to the blob 33). The remote advertises
  \<^verbatim>\<open>refs/heads/main\<close> at commit 1; the fetch mapping sends \<^verbatim>\<open>refs/heads/*\<close> to
  \<^verbatim>\<open>refs/remotes/origin/*\<close>; the tracking ref \<^verbatim>\<open>refs/remotes/origin/old\<close> exists.
\<close>

definition example_odb :: git_odb_env where
  "example_odb =
     \<lparr>git_odb_read_header = (\<lambda>a.
         if a \<in> {1, 2, 3, 4} then (0, GIT_OBJ_COMMIT)
         else if a \<in> {17, 18, 19} then (0, GIT_OBJ_TAG)
         else if a = 33 then (0, GIT_OBJ_BLOB)
         else (GIT_ENOTFOUND, GIT_OBJ_BLOB)),
      git_odb_exists = (\<lambda>a. a \<in> {1, 2, 3, 4, 17, 18, 19, 33}),
      git_object_lookup = (\<lambda>a t.
         if a \<in> {17, 18, 19} \<and> t = GIT_OBJ_TAG
         then (0, \<lparr>git_object_id = a, git_object_type = GIT_OBJ_TAG\<rparr>)
         else (GIT_ENOTFOUND, \<lparr>git_object_id = 0, git_object_type = GIT_OBJ_BLOB\<rparr>)),
      git_tag_target = (\<lambda>obj.
         if git_object_id obj = 17
         then (0, \<lparr>git_object_id = 18, git_object_type = GIT_OBJ_TAG\<rparr>)
         else if git_object_id obj = 18
         then (0, \<lparr>git_object_id = 4, git_object_type = GIT_OBJ_COMMIT\<rparr>)
         else if git_object_id obj = 19
         then (0, \<lparr>git_object_id = 33, git_object_type = GIT_OBJ_BLOB\<rparr>)
         else (- 1, obj)),
      git_merge_base = (\<lambda>a b.
         if a = b then (0, a)
         else if a = 2 \<and> b = 1 then (0, 1)
         else if a = 1 \<and> b = 2 then (0, 1)
         else (GIT_ENOTFOUND, 0))\<rparr>"

definition example_packer :: git_pack_env where
  "example_packer =
     \<lparr>git_revwalk_new = 0,
      git_revwalk_push = (\<lambda>w a. 0),
      git_packbuilder_new = 0,
      git_packbuilder_set_callbacks = 0,
      git_packbuilder_insert = (\<lambda>pbl a. 0),
      git_packbuilder_insert_walk =
        (\<lambda>pbl w. (0, pbl @ filter (\<lambda>a. a \<notin> set (hidden w)) (pushed w)))\<rparr>"

definition example_refdb :: git_ref_env where
  "example_refdb =
     \<lparr>git_refspec__parse = (\<lambda>str.
         if str = '':refs/heads/old''
         then (0, \<lparr>src = [], dst = ''refs/heads/old'', force = False\<rparr>)
         else (- 1, \<lparr>src = [], dst = [], force = False\<rparr>)),
      git_revparse_single = (\<lambda>r. GIT_ENOTFOUND),
      git_reference_name_to_id = (\<lambda>r.
         if r = ''refs/heads/main'' then (0, 2)
         else if r = ''refs/tags/v1'' then (0, 17)
         else (GIT_ENOTFOUND, 0)),
      git_reference_lookup = (\<lambda>log r.
         if r = ''refs/remotes/origin/old'' then 0 else GIT_ENOTFOUND),
      git_reference_delete = (\<lambda>log r. 0),
      git_reference_create = (\<lambda>log r a. 0)\<rparr>"

text \<open>The transport of the example accepts every ref; \<open>ok\<close> is what it reports for unpacking.\<close>

definition example_remote :: "bool \<Rightarrow> git_remote_env" where
  "example_remote ok =
     \<lparr>git_remote__matching_refspec = (\<lambda>r.
         if take 11 r = ''refs/heads/''
         then Some \<lparr>src = ''refs/heads/*'', dst = ''refs/remotes/origin/*'', force = True\<rparr>
         else None),
      git_refspec_transform = (\<lambda>buf fs r. (0, ''refs/remotes/origin/'' @ drop 11 r)),
      git_remote_connected = True,
      git_remote_connect = 0,
      git_remote_ls = (0, [\<lparr>name = ''refs/heads/main'', oid = 1\<rparr>]),
      transport_push = Some (\<lambda>log push.
         (0, map (\<lambda>s. \<lparr>ref = dst (refspec s), msg = None\<rparr>) (specs push), ok))\<rparr>"

definition example_env :: "bool \<Rightarrow> git_env" where
  "example_env ok =
     \<lparr>odb = example_odb, packer = example_packer, refdb = example_refdb,
      remote = example_remote ok\<rparr>"

text \<open>Callbacks that all return \<open>r\<close>.\<close>

definition example_callbacks :: "int \<Rightarrow> git_remote_callbacks" where
  "example_callbacks r =
     \<lparr>pack_progress = False,
      push_negotiation = Some (\<lambda>log ups. r),
      update_tips = Some (\<lambda>log n a b. r)\<rparr>"

definition example_spec :: "string \<Rightarrow> string \<Rightarrow> git_oid \<Rightarrow> git_oid \<Rightarrow> push_spec" where
  "example_spec s d l r = \<lparr>refspec = \<lparr>src = s, dst = d, force = False\<rparr>, loid = l, roid = r\<rparr>"

definition example_push :: "push_spec list \<Rightarrow> git_push" where
  "example_push sp = (git_push_new [\<lparr>name = ''refs/heads/main'', oid = 1\<rparr>])\<lparr>specs := sp\<rparr>"

section \<open>Properties\<close>

subsection \<open>Error codes\<close>

lemma GIT_ENONFASTFORWARD_neg: "GIT_ENONFASTFORWARD < 0"
  by (simp add: GIT_ENONFASTFORWARD_def)


lemma GIT_codes_differ: "GIT_ENOTFOUND \<noteq> GIT_ENONFASTFORWARD"
  by (simp add: GIT_ENOTFOUND_def GIT_ENONFASTFORWARD_def)

subsection \<open>The definitions of the example\<close>

lemmas example_defs =
  example_env_def example_odb_def example_packer_def example_refdb_def example_remote_def
  example_callbacks_def example_spec_def example_push_def git_push_new_def

subsection \<open>The loop of \<^verbatim>\<open>queue_objects\<close>\<close>

lemma queue_start_specs [simp]: "queue_start (push\<lparr>specs := sp\<rparr>) log = queue_start push log"
  by (simp add: queue_start_def)

lemma queue_objects_loop_append:
  "queue_objects_loop env (pre @ post) f =
     (case queue_objects_loop env pre f of
        None \<Rightarrow> None
      | Some (On_error f') \<Rightarrow> Some (On_error f')
      | Some (Continue f') \<Rightarrow> queue_objects_loop env post f')"
  by (induction pre arbitrary: f) (auto split: option.splits flow.splits)

lemma queue_spec_skip:
  "git_oid_iszero (loid spec) \<or> loid spec = roid spec \<Longrightarrow> queue_spec env spec f = Some (Continue f)"
  by (auto simp: queue_spec_def git_oid_equal_def)

lemma check_fastforward_Continue_log:
  "check_fastforward env spec f = Continue f' \<Longrightarrow>
     q_log f' = q_log f \<and> q_pb f' = q_pb f \<and> q_rw f' = q_rw f"
  by (auto simp: check_fastforward_def split: if_splits prod.splits)

lemma seed_spec_log:
  "seed_spec env spec f = Some r \<Longrightarrow> q_log (frame_of r) = q_log f"
  by (auto simp: seed_spec_def split: if_splits prod.splits option.splits)

lemma queue_spec_Continue_log:
  "queue_spec env spec f = Some (Continue f') \<Longrightarrow> q_log f' = q_log f"
  by (auto simp: queue_spec_def split: if_splits option.splits flow.splits
      dest!: seed_spec_log check_fastforward_Continue_log)

lemma queue_objects_loop_Continue_log:
  "queue_objects_loop env sp f = Some (Continue f') \<Longrightarrow> q_log f' = q_log f"
proof (induction sp arbitrary: f)
  case Nil
  then show ?case by simp
next
  case (Cons spec rest)
  then show ?case
    by (auto split: option.splits flow.splits dest: queue_spec_Continue_log)
qed








subsection \<open>The fast-forward check\<close>

text \<open>
  The check of a spec runs only when its objects have been seeded. In the example, commit 3
  is present locally and has no merge base with the object 9, so it is not an ancestor of
  it; but the header of 9 cannot be read, and \<^verbatim>\<open>queue_objects\<close> returns \<open>-1\<close>, not
  \<open>GIT_ENONFASTFORWARD\<close>.
\<close>

theorem C1_counterexample:
  "git_odb_exists (odb (example_env True)) 3 \<and>
   fst (git_merge_base (odb (example_env True)) 9 3) = GIT_ENOTFOUND \<and>
   queue_objects (example_env True)
     (example_push [example_spec ''refs/heads/topic'' ''refs/heads/topic'' 9 3]) [] =
   Some (- 1, example_push [example_spec ''refs/heads/topic'' ''refs/heads/topic'' 9 3], [])"
  by (simp add: queue_objects_def queue_start_def queue_spec_def seed_spec_def
      git_oid_iszero_def git_oid_equal_def GIT_ENOTFOUND_def example_defs)

text \<open>
  C1, amended. Take a spec with \<open>force = false\<close> whose \<open>loid\<close> is not zero and differs from
  its \<open>roid\<close>, that the enumeration reaches (the specs \<open>pre\<close> before it pass) and whose
  objects are seeded without error. \<^verbatim>\<open>queue_objects\<close>, run on the session up to and including
  this spec, fails with NonFastForward (it returns \<open>GIT_ENONFASTFORWARD\<close> after reporting a
  reference error) if and only if \<open>roid\<close> is not zero and is not an ancestor of \<open>loid\<close>: the
  object \<open>roid\<close> is absent from the local object database, or \<^verbatim>\<open>git_merge_base\<close> finds no
  merge base, or it finds one that is not \<open>roid\<close>. In that case it fails in the same way
  whatever specs \<open>post\<close> follow, with the pack builder as the seeding left it. Otherwise,
  when neither \<^verbatim>\<open>git_merge_base\<close> nor the final walk returns the code
  \<open>GIT_ENONFASTFORWARD\<close> of its own, \<^verbatim>\<open>queue_objects\<close> does not return that code. When \<open>roid\<close>
  is zero the check is skipped: the loop goes on with the next spec in the frame the
  seeding left, and with no spec left \<^verbatim>\<open>queue_objects\<close> hands that frame to the final walk.
\<close>

theorem C1_fast_forward_check:
  assumes "0 \<le> git_revwalk_new (packer env)"
    and "queue_objects_loop env pre (queue_start push log) = Some (Continue f1)"
    and "\<not> force (refspec spec)"
    and "loid spec \<noteq> 0"
    and "loid spec \<noteq> roid spec"
    and "seed_spec env spec f1 = Some (Continue f2)"
  shows "((\<exists>p m. queue_objects env (push\<lparr>specs := pre @ [spec]\<rparr>) log =
                  Some (GIT_ENONFASTFORWARD, p, log @ [Giterr_set GITERR_REFERENCE m])) \<longleftrightarrow>
          (roid spec \<noteq> 0 \<and>
            (\<not> git_odb_exists (odb env) (roid spec) \<or>
             fst (git_merge_base (odb env) (loid spec) (roid spec)) = GIT_ENOTFOUND \<or>
             (fst (git_merge_base (odb env) (loid spec) (roid spec)) = 0 \<and>
              snd (git_merge_base (odb env) (loid spec) (roid spec)) \<noteq> roid spec)))) \<and>
         (roid spec \<noteq> 0 \<and>
            (\<not> git_odb_exists (odb env) (roid spec) \<or>
             fst (git_merge_base (odb env) (loid spec) (roid spec)) = GIT_ENOTFOUND \<or>
             (fst (git_merge_base (odb env) (loid spec) (roid spec)) = 0 \<and>
              snd (git_merge_base (odb env) (loid spec) (roid spec)) \<noteq> roid spec)) \<longrightarrow>
          (\<exists>m. queue_objects env (push\<lparr>specs := pre @ spec # post\<rparr>) log =
                 Some (GIT_ENONFASTFORWARD, push\<lparr>specs := pre @ spec # post, pb := q_pb f2\<rparr>,
                       log @ [Giterr_set GITERR_REFERENCE m]))) \<and>
         (\<not> (roid spec \<noteq> 0 \<and>
            (\<not> git_odb_exists (odb env) (roid spec) \<or>
             fst (git_merge_base (odb env) (loid spec) (roid spec)) = GIT_ENOTFOUND \<or>
             (fst (git_merge_base (odb env) (loid spec) (roid spec)) = 0 \<and>
              snd (git_merge_base (odb env) (loid spec) (roid spec)) \<noteq> roid spec))) \<and>
          fst (git_merge_base (odb env) (loid spec) (roid spec)) \<noteq> GIT_ENONFASTFORWARD \<and>
          (\<forall>pbl w. fst (git_packbuilder_insert_walk (packer env) pbl w) \<noteq> GIT_ENONFASTFORWARD) \<longrightarrow>
          \<not> (\<exists>p l. queue_objects env (push\<lparr>specs := pre @ [spec]\<rparr>) log =
                        Some (GIT_ENONFASTFORWARD, p, l))) \<and>
         (roid spec = 0 \<longrightarrow>
            queue_objects_loop env (pre @ spec # post) (queue_start push log) =
              queue_objects_loop env post f2 \<and>
            queue_objects env (push\<lparr>specs := pre @ [spec]\<rparr>) log =
              (case git_packbuilder_insert_walk (packer env) (q_pb f2)
                      (hide_heads (remote_refs push) (q_rw f2)) of
                 (error, pbl) \<Rightarrow> Some (error, push\<lparr>specs := pre @ [spec], pb := pbl\<rparr>, log)))"
proof -
  let ?V = "roid spec \<noteq> 0 \<and>
            (\<not> git_odb_exists (odb env) (roid spec) \<or>
             fst (git_merge_base (odb env) (loid spec) (roid spec)) = GIT_ENOTFOUND \<or>
             (fst (git_merge_base (odb env) (loid spec) (roid spec)) = 0 \<and>
              snd (git_merge_base (odb env) (loid spec) (roid spec)) \<noteq> roid spec))"
  have l1: "q_log f1 = log"
    using queue_objects_loop_Continue_log [OF assms(2)] by (simp add: queue_start_def)
  have l2: "q_log f2 = log"
    using seed_spec_log [OF assms(6)] l1 by simp
  obtain e b where mb: "git_merge_base (odb env) (loid spec) (roid spec) = (e, b)"
    by (cases "git_merge_base (odb env) (loid spec) (roid spec)")
  have q: "queue_spec env spec f1 = Some (check_fastforward env spec f2)"
    using assms(4,5,6) by (simp add: queue_spec_def git_oid_iszero_def git_oid_equal_def)
  have loop: "queue_objects_loop env (pre @ spec # rest) (queue_start push log) =
      (case check_fastforward env spec f2 of
         On_error f' \<Rightarrow> Some (On_error f')
       | Continue f' \<Rightarrow> queue_objects_loop env rest f')" for rest
    using assms(2) q by (simp add: queue_objects_loop_append)
  have viol: "\<exists>m. check_fastforward env spec f2 =
          On_error (f2\<lparr>q_error := GIT_ENONFASTFORWARD, q_log := log @ [Giterr_set GITERR_REFERENCE m]\<rparr>)"
    if ?V
    using that assms(3) mb l2
    by (auto simp: check_fastforward_def git_oid_iszero_def git_oid_equal_def)
  have noviol: "(\<exists>f'. check_fastforward env spec f2 = Continue f' \<and> q_log f' = log \<and>
                    q_pb f' = q_pb f2 \<and> q_rw f' = q_rw f2) \<or>
                (\<exists>f'. check_fastforward env spec f2 = On_error f' \<and> q_log f' = log \<and>
                    q_error f' = fst (git_merge_base (odb env) (loid spec) (roid spec)))"
    if "\<not> ?V"
    using that assms(3) mb l2
    by (auto simp: check_fastforward_def git_oid_iszero_def git_oid_equal_def)
  have a: "\<exists>m. queue_objects env (push\<lparr>specs := pre @ spec # rest\<rparr>) log =
                 Some (GIT_ENONFASTFORWARD, push\<lparr>specs := pre @ spec # rest, pb := q_pb f2\<rparr>,
                       log @ [Giterr_set GITERR_REFERENCE m])" if ?V for rest
  proof -
    from viol [OF that] obtain m where
      "check_fastforward env spec f2 =
          On_error (f2\<lparr>q_error := GIT_ENONFASTFORWARD, q_log := log @ [Giterr_set GITERR_REFERENCE m]\<rparr>)"
      by blast
    then have "queue_objects env (push\<lparr>specs := pre @ spec # rest\<rparr>) log =
                 Some (GIT_ENONFASTFORWARD, push\<lparr>specs := pre @ spec # rest, pb := q_pb f2\<rparr>,
                       log @ [Giterr_set GITERR_REFERENCE m])"
      using assms(1) by (simp add: queue_objects_def loop not_less)
    then show ?thesis by blast
  qed
  have b: "\<not> (\<exists>p m. queue_objects env (push\<lparr>specs := pre @ [spec]\<rparr>) log =
                  Some (GIT_ENONFASTFORWARD, p, log @ [Giterr_set GITERR_REFERENCE m]))" if "\<not> ?V"
    using noviol [OF that] assms(1)
    by (auto simp: queue_objects_def loop not_less split: prod.splits)
  have c: "queue_objects_loop env (pre @ spec # post) (queue_start push log) =
              queue_objects_loop env post f2 \<and>
            queue_objects env (push\<lparr>specs := pre @ [spec]\<rparr>) log =
              (case git_packbuilder_insert_walk (packer env) (q_pb f2)
                      (hide_heads (remote_refs push) (q_rw f2)) of
                 (error, pbl) \<Rightarrow> Some (error, push\<lparr>specs := pre @ [spec], pb := pbl\<rparr>, log))"
    if "roid spec = 0"
  proof -
    have "check_fastforward env spec f2 = Continue f2"
      using that assms(3) by (simp add: check_fastforward_def git_oid_iszero_def)
    then show ?thesis
      using assms(1) l2 by (simp add: queue_objects_def loop not_less split: prod.splits)
  qed
  have d: "\<not> (\<exists>p l. queue_objects env (push\<lparr>specs := pre @ [spec]\<rparr>) log =
                        Some (GIT_ENONFASTFORWARD, p, l))"
    if "\<not> ?V" "fst (git_merge_base (odb env) (loid spec) (roid spec)) \<noteq> GIT_ENONFASTFORWARD"
      "\<forall>pbl w. fst (git_packbuilder_insert_walk (packer env) pbl w) \<noteq> GIT_ENONFASTFORWARD"
  proof -
    have w: "git_packbuilder_insert_walk (packer env) pbl w = (GIT_ENONFASTFORWARD, x) \<Longrightarrow> False"
      for pbl w x
      using that(3) by (metis fst_conv)
    show ?thesis
      using noviol [OF that(1)] assms(1) that(2)
      by (auto simp: queue_objects_def loop not_less split: prod.splits dest: w)
  qed
  from a [of "[]"] a [of post] b c d show ?thesis by blast
qed

text \<open>
  In the example: pushing commit 2 over the unrelated commit 3 is rejected, and creating
  the ref (\<open>roid\<close> zero) passes and enumerates commit 2.
\<close>

theorem C1_fast_forward_check_witness:
  "(\<exists>p m. queue_objects (example_env True)
             (example_push [example_spec ''refs/heads/main'' ''refs/heads/main'' 2 3]) [] =
           Some (GIT_ENONFASTFORWARD, p, [Giterr_set GITERR_REFERENCE m])) \<and>
   queue_objects (example_env True)
     (example_push [example_spec ''refs/heads/main'' ''refs/heads/main'' 2 0]) [] =
   Some (0, (example_push [example_spec ''refs/heads/main'' ''refs/heads/main'' 2 0])\<lparr>pb := [2]\<rparr>, [])"
proof -
  let ?env = "example_env True"
  let ?s3 = "example_spec ''refs/heads/main'' ''refs/heads/main'' 2 3"
  let ?s0 = "example_spec ''refs/heads/main'' ''refs/heads/main'' 2 0"
  let ?f = "queue_start (example_push []) []"
  let ?f2 = "\<lparr>q_error = - 1, q_rw = \<lparr>pushed = [2], hidden = []\<rparr>, q_pb = [], q_log = []\<rparr>"
  have h1: "0 \<le> git_revwalk_new (packer ?env)"
    by (simp add: example_defs)
  have h2: "queue_objects_loop ?env [] ?f = Some (Continue ?f)"
    by simp
  have h3: "\<not> force (refspec ?s3)" "loid ?s3 \<noteq> 0" "loid ?s3 \<noteq> roid ?s3"
    and h0: "\<not> force (refspec ?s0)" "loid ?s0 \<noteq> 0" "loid ?s0 \<noteq> roid ?s0" "roid ?s0 = 0"
    by (simp_all add: example_defs)
  have s3: "seed_spec ?env ?s3 ?f = Some (Continue ?f2)"
    and s0: "seed_spec ?env ?s0 ?f = Some (Continue ?f2)"
    by (simp_all add: seed_spec_def queue_start_def example_defs)
  have v3: "roid ?s3 \<noteq> 0 \<and>
      (\<not> git_odb_exists (odb ?env) (roid ?s3) \<or>
       fst (git_merge_base (odb ?env) (loid ?s3) (roid ?s3)) = GIT_ENOTFOUND \<or>
       (fst (git_merge_base (odb ?env) (loid ?s3) (roid ?s3)) = 0 \<and>
        snd (git_merge_base (odb ?env) (loid ?s3) (roid ?s3)) \<noteq> roid ?s3))"
    by (simp add: example_defs)
  have p3: "(example_push [])\<lparr>specs := [] @ [?s3]\<rparr> = example_push [?s3]"
    and p0: "(example_push [])\<lparr>specs := [] @ [?s0]\<rparr> = example_push [?s0]"
    by (simp_all add: example_push_def)
  have a: "\<exists>p m. queue_objects ?env (example_push [?s3]) [] =
           Some (GIT_ENONFASTFORWARD, p, [Giterr_set GITERR_REFERENCE m])"
    using C1_fast_forward_check [OF h1 h2 h3 s3, of "[]"] v3 unfolding p3 by simp
  have w: "git_packbuilder_insert_walk (packer ?env) (q_pb ?f2)
      (hide_heads (remote_refs (example_push [])) (q_rw ?f2)) = (0, [2])"
    by (simp add: git_oid_iszero_def example_defs)
  have b: "queue_objects ?env (example_push [?s0]) [] =
      Some (0, (example_push [?s0])\<lparr>pb := [2]\<rparr>, [])"
    using C1_fast_forward_check [OF h1 h2 h0(1-3) s0, of "[]"] h0(4) unfolding p0 w
    by (simp add: example_push_def)
  from a b show ?thesis by blast
qed

subsection \<open>Specs that enumeration skips\<close>

text \<open>
  C7. A spec whose \<open>loid\<close> equals its \<open>roid\<close> is skipped before any seeding or
  fast-forward work: the loop body continues in the frame it was given. Wherever the spec
  stands in the session, the loop and the whole of \<^verbatim>\<open>queue_objects\<close> end exactly as they
  do without it: same return code, same pack builder, same calls. The spec adds no
  object and no error.
\<close>

theorem C7_up_to_date_skipped:
  assumes "loid spec = roid spec"
  shows "queue_spec env spec f = Some (Continue f) \<and>
         queue_objects_loop env (pre @ spec # post) f = queue_objects_loop env (pre @ post) f \<and>
         queue_objects env (push\<lparr>specs := pre @ spec # post\<rparr>) log =
           map_option (\<lambda>(error, p, l). (error, p\<lparr>specs := pre @ spec # post\<rparr>, l))
             (queue_objects env (push\<lparr>specs := pre @ post\<rparr>) log)"
proof -
  have skip: "queue_spec env spec g = Some (Continue g)" for g
    using assms by (simp add: queue_spec_skip)
  have loop: "queue_objects_loop env (pre @ spec # post) g = queue_objects_loop env (pre @ post) g" for g
    by (simp add: queue_objects_loop_append skip split: option.splits flow.splits)
  have "queue_objects env (push\<lparr>specs := pre @ spec # post\<rparr>) log =
           map_option (\<lambda>(error, p, l). (error, p\<lparr>specs := pre @ spec # post\<rparr>, l))
             (queue_objects env (push\<lparr>specs := pre @ post\<rparr>) log)"
    by (simp add: queue_objects_def loop queue_start_def split: option.splits flow.splits prod.splits)
  with skip loop show ?thesis by blast
qed

text \<open>
  In the example a spec with \<open>loid = roid = 1\<close> is skipped, and a session that holds only
  this spec enumerates nothing and returns 0.
\<close>

theorem C7_up_to_date_skipped_witness:
  "queue_spec (example_env True) (example_spec ''refs/heads/main'' ''refs/heads/main'' 1 1)
     (queue_start (example_push []) []) = Some (Continue (queue_start (example_push []) [])) \<and>
   queue_objects (example_env True)
     (example_push [example_spec ''refs/heads/main'' ''refs/heads/main'' 1 1]) [] =
   Some (0, example_push [example_spec ''refs/heads/main'' ''refs/heads/main'' 1 1], [])"
proof -
  let ?spec = "example_spec ''refs/heads/main'' ''refs/heads/main'' 1 1"
  have eq: "loid ?spec = roid ?spec"
    by (simp add: example_spec_def)
  have none: "queue_objects (example_env True) ((example_push [])\<lparr>specs := [] @ []\<rparr>) [] =
      Some (0, example_push [], [])"
    by (simp add: queue_objects_def queue_start_def example_env_def example_packer_def
        example_push_def git_push_new_def git_oid_iszero_def)
  show ?thesis
    using C7_up_to_date_skipped [OF eq, of "example_env True" "queue_start (example_push []) []"
        "[]" "[]" "example_push []" "[]"] none
    by (simp add: example_push_def)
qed

subsection \<open>Tag chains\<close>





subsection \<open>Order of seeding and validation\<close>

text \<open>
  The source seeds the objects of a spec (lines 289 to 312) and only then runs the
  fast-forward check (lines 314 to 340). In the example, the spec that pushes tag 17 over
  the unknown commit 9 is rejected as non-fast-forward with the tags 17 and 18 already in
  the pack builder and commit 4 already on the walker.
\<close>

theorem C2_counterexample:
  "queue_spec (example_env True) (example_spec ''refs/tags/v1'' ''refs/tags/v1'' 17 9)
     \<lparr>q_error = - 1, q_rw = \<lparr>pushed = [], hidden = []\<rparr>, q_pb = [], q_log = []\<rparr> =
   Some (On_error
     \<lparr>q_error = GIT_ENONFASTFORWARD, q_rw = \<lparr>pushed = [4], hidden = []\<rparr>, q_pb = [17, 18],
      q_log = [Giterr_set GITERR_REFERENCE
        ''Cannot push because a reference that you are trying to update on the remote contains commits that are not present locally.'']\<rparr>)"
  by (simp add: queue_spec_def seed_spec_def check_fastforward_def enqueue_tag_def
      enqueue_tag_loop.simps example_env_def example_odb_def example_packer_def example_spec_def
      git_oid_iszero_def git_oid_equal_def)

text \<open>
  C2, amended. The fast-forward check of a spec runs after the objects of that spec have
  been seeded. When the specs before it pass, its seeding succeeds and the check fails,
  \<^verbatim>\<open>queue_objects\<close> returns \<open>GIT_ENONFASTFORWARD\<close> with the pack builder as the seeding left
  it; the specs after it are not looked at, and \<open>send_objects\<close> returns the same error
  without calling the transport (no \<open>Transport_push\<close> is recorded, the status list is
  untouched).
\<close>

theorem C2_rejected_after_seeding:
  assumes "0 \<le> git_revwalk_new (packer env)"
    and "specs push = pre @ spec # post"
    and "queue_objects_loop env pre (queue_start push log) = Some (Continue f1)"
    and "loid spec \<noteq> 0"
    and "loid spec \<noteq> roid spec"
    and "seed_spec env spec f1 = Some (Continue f2)"
    and "\<not> force (refspec spec)"
    and "roid spec \<noteq> 0"
    and "\<not> git_odb_exists (odb env) (roid spec) \<or>
         fst (git_merge_base (odb env) (loid spec) (roid spec)) = GIT_ENOTFOUND \<or>
         (fst (git_merge_base (odb env) (loid spec) (roid spec)) = 0 \<and>
          snd (git_merge_base (odb env) (loid spec) (roid spec)) \<noteq> roid spec)"
  shows "\<exists>m. queue_objects env push log =
               Some (GIT_ENONFASTFORWARD, push\<lparr>pb := q_pb f2\<rparr>, log @ [Giterr_set GITERR_REFERENCE m]) \<and>
             send_objects env tpush push log =
               Some (GIT_ENONFASTFORWARD, push\<lparr>pb := q_pb f2\<rparr>, log @ [Giterr_set GITERR_REFERENCE m])"
proof -
  have l1: "q_log f1 = log"
    using queue_objects_loop_Continue_log [OF assms(3)] by (simp add: queue_start_def)
  have l2: "q_log f2 = log"
    using seed_spec_log [OF assms(6)] l1 by simp
  obtain e b where mb: "git_merge_base (odb env) (loid spec) (roid spec) = (e, b)"
    by (cases "git_merge_base (odb env) (loid spec) (roid spec)")
  have "\<exists>m. check_fastforward env spec f2 =
          On_error (f2\<lparr>q_error := GIT_ENONFASTFORWARD, q_log := log @ [Giterr_set GITERR_REFERENCE m]\<rparr>)"
    using assms(7,8,9) mb l2
    by (auto simp: check_fastforward_def git_oid_iszero_def git_oid_equal_def)
  then obtain m where
    ff: "check_fastforward env spec f2 =
          On_error (f2\<lparr>q_error := GIT_ENONFASTFORWARD, q_log := log @ [Giterr_set GITERR_REFERENCE m]\<rparr>)"
    by blast
  have q: "queue_spec env spec f1 =
      Some (On_error (f2\<lparr>q_error := GIT_ENONFASTFORWARD, q_log := log @ [Giterr_set GITERR_REFERENCE m]\<rparr>))"
    using assms(4,5,6) ff by (simp add: queue_spec_def git_oid_iszero_def git_oid_equal_def)
  have loop: "queue_objects_loop env (specs push) (queue_start push log) =
      Some (On_error (f2\<lparr>q_error := GIT_ENONFASTFORWARD, q_log := log @ [Giterr_set GITERR_REFERENCE m]\<rparr>))"
    using assms(2,3) q by (simp add: queue_objects_loop_append)
  have qo: "queue_objects env push log =
      Some (GIT_ENONFASTFORWARD, push\<lparr>pb := q_pb f2\<rparr>, log @ [Giterr_set GITERR_REFERENCE m])"
    using assms(1) loop by (simp add: queue_objects_def not_less)
  have "send_objects env tpush push log =
      Some (GIT_ENONFASTFORWARD, push\<lparr>pb := q_pb f2\<rparr>, log @ [Giterr_set GITERR_REFERENCE m])"
    using qo GIT_ENONFASTFORWARD_neg by (simp add: send_objects_def)
  with qo show ?thesis by blast
qed


theorem C2_rejected_after_seeding_witness:
  "\<exists>m. send_objects (example_env True)
          (\<lambda>log push. (0, [], True))
          (example_push [example_spec ''refs/tags/v1'' ''refs/tags/v1'' 17 9,
                         example_spec ''refs/heads/main'' ''refs/heads/main'' 2 1]) [] =
        Some (GIT_ENONFASTFORWARD,
              (example_push [example_spec ''refs/tags/v1'' ''refs/tags/v1'' 17 9,
                             example_spec ''refs/heads/main'' ''refs/heads/main'' 2 1])\<lparr>pb := [17, 18]\<rparr>,
              [Giterr_set GITERR_REFERENCE m])"
proof -
  let ?spec = "example_spec ''refs/tags/v1'' ''refs/tags/v1'' 17 9"
  let ?post = "[example_spec ''refs/heads/main'' ''refs/heads/main'' 2 1]"
  let ?push = "example_push (?spec # ?post)"
  let ?f2 = "\<lparr>q_error = 0, q_rw = \<lparr>pushed = [4], hidden = []\<rparr>, q_pb = [17, 18], q_log = []\<rparr>"
  have h1: "0 \<le> git_revwalk_new (packer (example_env True))"
    by (simp add: example_env_def example_packer_def)
  have h2: "specs ?push = [] @ ?spec # ?post"
    by (simp add: example_push_def)
  have h3: "queue_objects_loop (example_env True) [] (queue_start ?push []) =
      Some (Continue (queue_start ?push []))"
    by simp
  have h4: "loid ?spec \<noteq> 0" and h5: "loid ?spec \<noteq> roid ?spec"
    and h7: "\<not> force (refspec ?spec)" and h8: "roid ?spec \<noteq> 0"
    by (simp_all add: example_spec_def)
  have h6: "seed_spec (example_env True) ?spec (queue_start ?push []) = Some (Continue ?f2)"
    by (simp add: seed_spec_def enqueue_tag_def enqueue_tag_loop.simps example_env_def
        example_odb_def example_packer_def example_spec_def queue_start_def example_push_def
        git_push_new_def)
  have h9: "\<not> git_odb_exists (odb (example_env True)) (roid ?spec) \<or>
      fst (git_merge_base (odb (example_env True)) (loid ?spec) (roid ?spec)) = GIT_ENOTFOUND \<or>
      (fst (git_merge_base (odb (example_env True)) (loid ?spec) (roid ?spec)) = 0 \<and>
       snd (git_merge_base (odb (example_env True)) (loid ?spec) (roid ?spec)) \<noteq> roid ?spec)"
    by (simp add: example_env_def example_odb_def example_spec_def)
  show ?thesis
    using C2_rejected_after_seeding [OF h1 h2 h3 h4 h5 h6 h7 h8 h9, of "\<lambda>log push. (0, [], True)"]
    by auto
qed

subsection \<open>A read failure after a spec that passed\<close>

text \<open>
  \<^verbatim>\<open>queue_objects\<close> jumps to \<^verbatim>\<open>on_error\<close> after a failing \<^verbatim>\<open>git_odb_read_header\<close> or
  \<^verbatim>\<open>git_revwalk_push\<close> without assigning \<^verbatim>\<open>error\<close>, and returns the value \<^verbatim>\<open>error\<close> had.
  In the example, the first spec passes its fast-forward check, which leaves \<^verbatim>\<open>error = 0\<close>;
  the object of the second spec cannot be read, and \<^verbatim>\<open>queue_objects\<close> returns 0 with an
  empty pack builder: the final walk has not run.
\<close>

lemma queue_objects_read_failure_example:
  "queue_objects (example_env True)
     (example_push [example_spec ''refs/heads/main'' ''refs/heads/main'' 2 1,
                    example_spec ''refs/heads/topic'' ''refs/heads/topic'' 9 0]) [] =
   Some (0, example_push [example_spec ''refs/heads/main'' ''refs/heads/main'' 2 1,
                          example_spec ''refs/heads/topic'' ''refs/heads/topic'' 9 0], [])"
  by (simp add: queue_objects_def queue_start_def queue_spec_def seed_spec_def
      check_fastforward_def git_oid_iszero_def git_oid_equal_def GIT_ENOTFOUND_def
      example_env_def example_odb_def example_packer_def example_spec_def example_push_def
      git_push_new_def)

subsection \<open>Work resolution\<close>

lemma copy_remote_oid_find:
  "copy_remote_oid heads spec =
     spec\<lparr>roid := (case find (\<lambda>h. name h = dst (refspec spec)) heads of
                      None \<Rightarrow> roid spec
                    | Some h \<Rightarrow> oid h)\<rparr>"
  by (induction heads) auto

lemma copy_remote_oid_refspec [simp]:
  "refspec (copy_remote_oid heads spec) = refspec spec"
  "loid (copy_remote_oid heads spec) = loid spec"
  by (simp_all add: copy_remote_oid_find)

lemma calculate_work_loop_ok:
  assumes "\<forall>spec\<in>set sp. \<not> (src (refspec spec) \<noteq> [] \<and>
             fst (git_reference_name_to_id (refdb env) (src (refspec spec))) < 0)"
  shows "calculate_work_loop env heads sp ups log =
           (0, map (resolved_spec env heads) sp,
            ups @ map add_update (map (resolved_spec env heads) sp), log)"
  using assms
proof (induction sp arbitrary: ups)
  case Nil
  then show ?case by simp
next
  case (Cons spec rest)
  have r: "copy_remote_oid heads
             (if src (refspec spec) \<noteq> []
              then spec\<lparr>loid := snd (git_reference_name_to_id (refdb env) (src (refspec spec)))\<rparr>
              else spec) = resolved_spec env heads spec"
    by (simp add: copy_remote_oid_find resolved_spec_def split: option.splits)
  from Cons.prems have rest: "\<forall>s\<in>set rest. \<not> (src (refspec s) \<noteq> [] \<and>
             fst (git_reference_name_to_id (refdb env) (src (refspec s))) < 0)"
    and here: "\<not> (src (refspec spec) \<noteq> [] \<and>
             fst (git_reference_name_to_id (refdb env) (src (refspec spec))) < 0)"
    by simp_all
  show ?case
    using here by (simp add: Let_def r Cons.IH [OF rest] del: copy_remote_oid.simps)
qed

lemma calculate_work_loop_fail:
  assumes "\<exists>spec\<in>set sp. src (refspec spec) \<noteq> [] \<and>
             fst (git_reference_name_to_id (refdb env) (src (refspec spec))) < 0"
  shows "\<exists>sp' ups' m. calculate_work_loop env heads sp ups log =
           (- 1, sp', ups', log @ [Giterr_set GITERR_REFERENCE m])"
  using assms
proof (induction sp arbitrary: ups)
  case Nil
  then show ?case by simp
next
  case (Cons spec rest)
  show ?case
  proof (cases "src (refspec spec) \<noteq> [] \<and>
             fst (git_reference_name_to_id (refdb env) (src (refspec spec))) < 0")
    case True
    then show ?thesis by simp
  next
    case False
    with Cons.prems have "\<exists>s\<in>set rest. src (refspec s) \<noteq> [] \<and>
             fst (git_reference_name_to_id (refdb env) (src (refspec s))) < 0"
      by auto
    from Cons.IH [OF this] obtain sp' ups' m where
      "calculate_work_loop env heads rest
         (ups @ [add_update (copy_remote_oid heads
             (if src (refspec spec) \<noteq> []
              then spec\<lparr>loid := snd (git_reference_name_to_id (refdb env) (src (refspec spec)))\<rparr>
              else spec))]) log =
       (- 1, sp', ups', log @ [Giterr_set GITERR_REFERENCE m])"
      by blast
    with False show ?thesis
      by (simp add: Let_def del: copy_remote_oid.simps)
  qed
qed

text \<open>
  C9. \<^verbatim>\<open>calculate_work\<close> refines the work resolution of the specification. When no
  non-empty source ref fails its lookup, it returns 0, every spec of the session is the
  resolved spec (\<open>loid\<close> from the source ref, or left as it was for an empty source; \<open>roid\<close>
  copied from the advertised head of the same name, or left as it was), and one update
  per spec has been appended to the update list, in the order of the specs. When the
  lookup of some non-empty source ref fails, it returns \<open>-1\<close> after reporting an error of
  class \<open>GITERR_REFERENCE\<close>, and \<^verbatim>\<open>do_push\<close> returns this \<open>-1\<close> at once: no negotiation
  callback, no enumeration, no transport call.
\<close>

theorem C9_work_resolution:
  "(if \<exists>spec\<in>set (specs push). src (refspec spec) \<noteq> [] \<and>
         fst (git_reference_name_to_id (refdb env) (src (refspec spec))) < 0
    then \<exists>sp ups m.
           calculate_work env push log =
             (- 1, push\<lparr>specs := sp, updates := ups\<rparr>, log @ [Giterr_set GITERR_REFERENCE m]) \<and>
           (\<forall>tpush. transport_push (remote env) = Some tpush \<and>
              0 \<le> git_packbuilder_new (packer env) \<and>
              0 \<le> git_packbuilder_set_callbacks (packer env) \<longrightarrow>
              do_push env callbacks push log =
                Some (- 1, push\<lparr>specs := sp, updates := ups, pb := []\<rparr>,
                      log @ [Giterr_set GITERR_REFERENCE m]))
    else calculate_work env push log =
           (0, push\<lparr>specs := map (resolved_spec env (remote_refs push)) (specs push),
                   updates := updates push @
                     map add_update (map (resolved_spec env (remote_refs push)) (specs push))\<rparr>,
            log))"
proof (cases "\<exists>spec\<in>set (specs push). src (refspec spec) \<noteq> [] \<and>
         fst (git_reference_name_to_id (refdb env) (src (refspec spec))) < 0")
  case True
  from calculate_work_loop_fail [OF True] obtain sp ups m where
    loop: "calculate_work_loop env (remote_refs push) (specs push) (updates push) log =
             (- 1, sp, ups, log @ [Giterr_set GITERR_REFERENCE m])"
    by blast
  have cw: "calculate_work env push log =
      (- 1, push\<lparr>specs := sp, updates := ups\<rparr>, log @ [Giterr_set GITERR_REFERENCE m])"
    by (simp add: calculate_work_def loop)
  have cw': "calculate_work env (push\<lparr>pb := []\<rparr>) log =
      (- 1, push\<lparr>specs := sp, updates := ups, pb := []\<rparr>, log @ [Giterr_set GITERR_REFERENCE m])"
    by (simp add: calculate_work_def loop)
  have "do_push env callbacks push log =
          Some (- 1, push\<lparr>specs := sp, updates := ups, pb := []\<rparr>,
                log @ [Giterr_set GITERR_REFERENCE m])"
    if "transport_push (remote env) = Some tpush" "0 \<le> git_packbuilder_new (packer env)"
       "0 \<le> git_packbuilder_set_callbacks (packer env)" for tpush
    using that by (simp add: do_push_def cw' git_packbuilder_free_def not_less)
  with cw True show ?thesis by auto
next
  case False
  then have "\<forall>spec\<in>set (specs push). \<not> (src (refspec spec) \<noteq> [] \<and>
             fst (git_reference_name_to_id (refdb env) (src (refspec spec))) < 0)"
    by blast
  from calculate_work_loop_ok [OF this] False show ?thesis
    by (simp add: calculate_work_def)
qed

text \<open>
  In the example, a deletion, a branch and a tag are resolved; a session with the unknown
  source \<^verbatim>\<open>refs/heads/nope\<close> fails.
\<close>

theorem C9_work_resolution_witness:
  "calculate_work (example_env True)
     (example_push [example_spec [] ''refs/heads/old'' 0 0,
                    example_spec ''refs/heads/main'' ''refs/heads/main'' 0 0,
                    example_spec ''refs/tags/v1'' ''refs/tags/v1'' 0 0]) [] =
     (0, (example_push [example_spec [] ''refs/heads/old'' 0 0,
                        example_spec ''refs/heads/main'' ''refs/heads/main'' 2 1,
                        example_spec ''refs/tags/v1'' ''refs/tags/v1'' 17 0])
           \<lparr>updates :=
              [\<lparr>src_refname = [], dst_refname = ''refs/heads/old'', upd_src = 0, upd_dst = 0\<rparr>,
               \<lparr>src_refname = ''refs/heads/main'', dst_refname = ''refs/heads/main'',
                  upd_src = 1, upd_dst = 2\<rparr>,
               \<lparr>src_refname = ''refs/tags/v1'', dst_refname = ''refs/tags/v1'',
                  upd_src = 0, upd_dst = 17\<rparr>]\<rparr>, []) \<and>
   (\<exists>sp ups m.
      do_push (example_env True) None
        (example_push [example_spec ''refs/heads/main'' ''refs/heads/main'' 0 0,
                       example_spec ''refs/heads/nope'' ''refs/heads/nope'' 0 0]) [] =
      Some (- 1, (example_push [example_spec ''refs/heads/main'' ''refs/heads/main'' 0 0,
                                example_spec ''refs/heads/nope'' ''refs/heads/nope'' 0 0])
                   \<lparr>specs := sp, updates := ups, pb := []\<rparr>,
            [Giterr_set GITERR_REFERENCE m]))"
proof -
  let ?ok = "example_push [example_spec [] ''refs/heads/old'' 0 0,
                    example_spec ''refs/heads/main'' ''refs/heads/main'' 0 0,
                    example_spec ''refs/tags/v1'' ''refs/tags/v1'' 0 0]"
  let ?bad = "example_push [example_spec ''refs/heads/main'' ''refs/heads/main'' 0 0,
                       example_spec ''refs/heads/nope'' ''refs/heads/nope'' 0 0]"
  have ok: "\<not> (\<exists>spec\<in>set (specs ?ok). src (refspec spec) \<noteq> [] \<and>
         fst (git_reference_name_to_id (refdb (example_env True)) (src (refspec spec))) < 0)"
    by (simp add: example_defs)
  have "calculate_work (example_env True) ?ok [] =
           (0, ?ok\<lparr>specs := map (resolved_spec (example_env True) (remote_refs ?ok)) (specs ?ok),
                   updates := updates ?ok @
                     map add_update (map (resolved_spec (example_env True) (remote_refs ?ok)) (specs ?ok))\<rparr>,
            [])"
    using C9_work_resolution [of ?ok "example_env True" "[]" None] ok by simp
  also have "?ok\<lparr>specs := map (resolved_spec (example_env True) (remote_refs ?ok)) (specs ?ok),
                   updates := updates ?ok @
                     map add_update (map (resolved_spec (example_env True) (remote_refs ?ok)) (specs ?ok))\<rparr>
     = (example_push [example_spec [] ''refs/heads/old'' 0 0,
                        example_spec ''refs/heads/main'' ''refs/heads/main'' 2 1,
                        example_spec ''refs/tags/v1'' ''refs/tags/v1'' 17 0])
           \<lparr>updates :=
              [\<lparr>src_refname = [], dst_refname = ''refs/heads/old'', upd_src = 0, upd_dst = 0\<rparr>,
               \<lparr>src_refname = ''refs/heads/main'', dst_refname = ''refs/heads/main'',
                  upd_src = 1, upd_dst = 2\<rparr>,
               \<lparr>src_refname = ''refs/tags/v1'', dst_refname = ''refs/tags/v1'',
                  upd_src = 0, upd_dst = 17\<rparr>]\<rparr>"
    by (simp add: resolved_spec_def add_update_def example_defs)
  finally have a: "calculate_work (example_env True) ?ok [] =
     (0, (example_push [example_spec [] ''refs/heads/old'' 0 0,
                        example_spec ''refs/heads/main'' ''refs/heads/main'' 2 1,
                        example_spec ''refs/tags/v1'' ''refs/tags/v1'' 17 0])
           \<lparr>updates :=
              [\<lparr>src_refname = [], dst_refname = ''refs/heads/old'', upd_src = 0, upd_dst = 0\<rparr>,
               \<lparr>src_refname = ''refs/heads/main'', dst_refname = ''refs/heads/main'',
                  upd_src = 1, upd_dst = 2\<rparr>,
               \<lparr>src_refname = ''refs/tags/v1'', dst_refname = ''refs/tags/v1'',
                  upd_src = 0, upd_dst = 17\<rparr>]\<rparr>, [])" .
  have bad: "\<exists>spec\<in>set (specs ?bad). src (refspec spec) \<noteq> [] \<and>
         fst (git_reference_name_to_id (refdb (example_env True)) (src (refspec spec))) < 0"
    by (simp add: example_defs GIT_ENOTFOUND_def)
  have h1: "transport_push (remote (example_env True)) =
      Some (\<lambda>log push. (0, map (\<lambda>s. \<lparr>ref = dst (refspec s), msg = None\<rparr>) (specs push), True))"
    and h2: "0 \<le> git_packbuilder_new (packer (example_env True))"
    and h3: "0 \<le> git_packbuilder_set_callbacks (packer (example_env True))"
    by (simp_all add: example_defs)
  from C9_work_resolution [of ?bad "example_env True" "[]" None] bad
  obtain sp ups m where
    "\<forall>tpush. transport_push (remote (example_env True)) = Some tpush \<and>
         0 \<le> git_packbuilder_new (packer (example_env True)) \<and>
         0 \<le> git_packbuilder_set_callbacks (packer (example_env True)) \<longrightarrow>
       do_push (example_env True) None ?bad [] =
         Some (- 1, ?bad\<lparr>specs := sp, updates := ups, pb := []\<rparr>,
               [] @ [Giterr_set GITERR_REFERENCE m])"
    by (simp only: if_True) blast
  with h1 h2 h3 have "do_push (example_env True) None ?bad [] =
         Some (- 1, ?bad\<lparr>specs := sp, updates := ups, pb := []\<rparr>, [Giterr_set GITERR_REFERENCE m])"
    by simp
  then have b: "\<exists>sp ups m. do_push (example_env True) None ?bad [] =
         Some (- 1, ?bad\<lparr>specs := sp, updates := ups, pb := []\<rparr>, [Giterr_set GITERR_REFERENCE m])"
    by blast
  from a b show ?thesis by blast
qed

subsection \<open>Negotiation\<close>

text \<open>
  \<^verbatim>\<open>do_push\<close> leaves only when the callback returns a negative value. In the example the
  callback returns 1, and the push goes on: the objects are enumerated and handed to the
  transport.
\<close>

theorem C4_counterexample:
  "do_push (example_env True) (Some (example_callbacks 1))
     (example_push [example_spec ''refs/heads/main'' ''refs/heads/main'' 0 0]) [] =
   Some (0,
     (example_push [example_spec ''refs/heads/main'' ''refs/heads/main'' 2 1])
       \<lparr>status := [\<lparr>ref = ''refs/heads/main'', msg = None\<rparr>],
        updates := [\<lparr>src_refname = ''refs/heads/main'', dst_refname = ''refs/heads/main'',
                     upd_src = 1, upd_dst = 2\<rparr>],
        unpack_ok := True\<rparr>,
     [Push_negotiation [\<lparr>src_refname = ''refs/heads/main'', dst_refname = ''refs/heads/main'',
                          upd_src = 1, upd_dst = 2\<rparr>],
      Transport_push [example_spec ''refs/heads/main'' ''refs/heads/main'' 2 1] [2]])"
  by (simp add: do_push_def negotiate_and_send_def send_objects_def queue_objects_def
      queue_start_def queue_spec_def seed_spec_def check_fastforward_def calculate_work_def
      add_update_def git_packbuilder_free_def git_oid_iszero_def git_oid_equal_def
      GIT_ENOTFOUND_def example_defs)

text \<open>
  C4, amended. When a negotiation callback is registered and work resolution succeeds,
  \<^verbatim>\<open>do_push\<close> calls the callback with the whole update list of the resolved session. A
  negative return ends the push with that return code before enumeration and before the
  transport is called: the only call recorded after work resolution is the negotiation.
  A return that is zero or positive lets the push go on with enumeration and transport.
\<close>

theorem C4_negotiation_veto:
  assumes "transport_push (remote env) = Some tpush"
    and "0 \<le> git_packbuilder_new (packer env)"
    and "pack_progress c \<longrightarrow> 0 \<le> git_packbuilder_set_callbacks (packer env)"
    and "calculate_work env (push\<lparr>pb := []\<rparr>) log = (rc, push1, log1)"
    and "0 \<le> rc"
    and "push_negotiation c = Some cb"
  shows "(cb log1 (updates push1) < 0 \<longrightarrow>
            do_push env (Some c) push log =
              Some (cb log1 (updates push1), git_packbuilder_free push1,
                    log1 @ [Push_negotiation (updates push1)])) \<and>
         (0 \<le> cb log1 (updates push1) \<longrightarrow>
            do_push env (Some c) push log =
              map_option (\<lambda>(error, p, l). (error, git_packbuilder_free p, l))
                (send_objects env tpush push1 (log1 @ [Push_negotiation (updates push1)])))"
  using assms
  by (auto simp: do_push_def negotiate_and_send_def not_less split: option.splits)

text \<open>In the example the callback returns \<open>-7\<close>.\<close>

theorem C4_negotiation_veto_witness:
  "do_push (example_env True) (Some (example_callbacks (- 7)))
     (example_push [example_spec ''refs/heads/main'' ''refs/heads/main'' 0 0]) [] =
   Some (- 7,
     (example_push [example_spec ''refs/heads/main'' ''refs/heads/main'' 2 1])
       \<lparr>updates := [\<lparr>src_refname = ''refs/heads/main'', dst_refname = ''refs/heads/main'',
                     upd_src = 1, upd_dst = 2\<rparr>]\<rparr>,
     [Push_negotiation [\<lparr>src_refname = ''refs/heads/main'', dst_refname = ''refs/heads/main'',
                          upd_src = 1, upd_dst = 2\<rparr>]])"
proof -
  let ?push = "example_push [example_spec ''refs/heads/main'' ''refs/heads/main'' 0 0]"
  let ?push1 = "(example_push [example_spec ''refs/heads/main'' ''refs/heads/main'' 2 1])
       \<lparr>updates := [\<lparr>src_refname = ''refs/heads/main'', dst_refname = ''refs/heads/main'',
                     upd_src = 1, upd_dst = 2\<rparr>]\<rparr>"
  have h1: "transport_push (remote (example_env True)) =
      Some (\<lambda>log push. (0, map (\<lambda>s. \<lparr>ref = dst (refspec s), msg = None\<rparr>) (specs push), True))"
    by (simp add: example_defs)
  have h2: "0 \<le> git_packbuilder_new (packer (example_env True))"
    by (simp add: example_defs)
  have h3: "pack_progress (example_callbacks (- 7)) \<longrightarrow>
      0 \<le> git_packbuilder_set_callbacks (packer (example_env True))"
    by (simp add: example_defs)
  have h4: "calculate_work (example_env True) (?push\<lparr>pb := []\<rparr>) [] = (0, ?push1, [])"
    by (simp add: calculate_work_def add_update_def example_defs)
  have h6: "push_negotiation (example_callbacks (- 7)) = Some (\<lambda>log ups. - 7)"
    by (simp add: example_defs)
  show ?thesis
    using C4_negotiation_veto [OF h1 h2 h3 h4 _ h6]
    by (simp add: git_packbuilder_free_def example_defs)
qed

subsection \<open>Unpack status\<close>

text \<open>
  C6. When the remote is connected, its heads are listed, and \<^verbatim>\<open>do_push\<close> returns
  without error, but the flag \<^verbatim>\<open>unpack_ok\<close> of the session is false, then
  \<^verbatim>\<open>git_push_finish\<close> returns \<open>-1\<close> and reports a network error, whatever the status list
  holds.
\<close>

theorem C6_unpack_failed:
  assumes "git_remote_connected (remote env) \<or> 0 \<le> git_remote_connect (remote env)"
    and "0 \<le> fst (git_remote_ls (remote env))"
    and "do_push env callbacks (snd (filter_refs env push)) log = Some (error, push2, log2)"
    and "0 \<le> error"
    and "\<not> unpack_ok push2"
  shows "git_push_finish env callbacks push log =
           Some (- 1, push2,
                 log2 @ [Giterr_set GITERR_NET ''unpacking the sent packfile failed on the remote''])"
proof -
  obtain rc heads where ls: "git_remote_ls (remote env) = (rc, heads)"
    by (cases "git_remote_ls (remote env)")
  with assms(2) have fr: "filter_refs env push = (0, push\<lparr>remote_refs := heads\<rparr>)"
    by (simp add: filter_refs_def not_less)
  show ?thesis
    using assms(1,3,4,5) by (auto simp: git_push_finish_def fr not_less)
qed

text \<open>
  In the example the transport accepts the only ref and reports that unpacking failed.
\<close>

theorem C6_unpack_failed_witness:
  "git_push_finish (example_env False) None
     (example_push [example_spec ''refs/heads/main'' ''refs/heads/main'' 0 0]) [] =
   Some (- 1,
     (example_push [example_spec ''refs/heads/main'' ''refs/heads/main'' 2 1])
       \<lparr>status := [\<lparr>ref = ''refs/heads/main'', msg = None\<rparr>],
        updates := [\<lparr>src_refname = ''refs/heads/main'', dst_refname = ''refs/heads/main'',
                     upd_src = 1, upd_dst = 2\<rparr>]\<rparr>,
     [Transport_push [example_spec ''refs/heads/main'' ''refs/heads/main'' 2 1] [2],
      Giterr_set GITERR_NET ''unpacking the sent packfile failed on the remote''])"
proof -
  let ?push = "example_push [example_spec ''refs/heads/main'' ''refs/heads/main'' 0 0]"
  let ?push2 = "(example_push [example_spec ''refs/heads/main'' ''refs/heads/main'' 2 1])
       \<lparr>status := [\<lparr>ref = ''refs/heads/main'', msg = None\<rparr>],
        updates := [\<lparr>src_refname = ''refs/heads/main'', dst_refname = ''refs/heads/main'',
                     upd_src = 1, upd_dst = 2\<rparr>]\<rparr>"
  have h1: "git_remote_connected (remote (example_env False)) \<or>
      0 \<le> git_remote_connect (remote (example_env False))"
    by (simp add: example_defs)
  have h2: "0 \<le> fst (git_remote_ls (remote (example_env False)))"
    by (simp add: example_defs)
  have h3: "do_push (example_env False) None (snd (filter_refs (example_env False) ?push)) [] =
      Some (0, ?push2, [Transport_push [example_spec ''refs/heads/main'' ''refs/heads/main'' 2 1] [2]])"
    by (simp add: filter_refs_def do_push_def negotiate_and_send_def send_objects_def
      queue_objects_def queue_start_def queue_spec_def seed_spec_def check_fastforward_def
      calculate_work_def add_update_def git_packbuilder_free_def git_oid_iszero_def
      git_oid_equal_def GIT_ENOTFOUND_def example_defs)
  have h5: "\<not> unpack_ok ?push2"
    by (simp add: example_defs)
  show ?thesis
    using C6_unpack_failed [OF h1 h2 h3 _ h5] by simp
qed

subsection \<open>Tip reconciliation\<close>

lemma find_push_spec_None:
  "find_push_spec sp r = None \<longleftrightarrow> (\<forall>spec\<in>set sp. dst (refspec spec) \<noteq> r)"
  by (induction sp) auto

text \<open>
  C10. An accepted status (no message) whose ref has no fetch mapping, or has one (with
  the tracking name computed without error) but is the destination of no spec of the
  session, is skipped: the loop body continues without any call recorded, and the loop
  goes on with the remaining statuses.
\<close>

theorem C10_unmatched_status_skipped:
  assumes "msg st = None"
    and "git_remote__matching_refspec (remote env) (ref st) = None \<or>
         (\<exists>fs. git_remote__matching_refspec (remote env) (ref st) = Some fs \<and>
               0 \<le> fst (git_refspec_transform (remote env) (remote_ref_name f) fs (ref st))) \<and>
         (\<forall>spec\<in>set (specs push). dst (refspec spec) \<noteq> ref st)"
  shows "\<exists>f'. update_tip env callbacks push st f = Continue f' \<and> t_log f' = t_log f \<and>
              update_tips_loop env callbacks push (st # rest) f =
                update_tips_loop env callbacks push rest f'"
proof -
  have "\<exists>f'. update_tip env callbacks push st f = Continue f' \<and> t_log f' = t_log f"
    using assms
    by (auto simp: update_tip_def find_push_spec_None [symmetric] not_less
        split: option.splits prod.splits)
  then show ?thesis by auto
qed

text \<open>
  In the example, \<^verbatim>\<open>refs/heads/other\<close> has a fetch mapping but no spec in the session.
\<close>

theorem C10_unmatched_status_skipped_witness:
  "\<exists>f'. update_tip (example_env True) (Some (example_callbacks 0))
          (example_push [example_spec ''refs/heads/main'' ''refs/heads/main'' 2 1])
          \<lparr>ref = ''refs/heads/other'', msg = None\<rparr>
          \<lparr>t_error = 0, remote_ref_name = [], t_log = []\<rparr> = Continue f' \<and>
        t_log f' = [] \<and>
        update_tips_loop (example_env True) (Some (example_callbacks 0))
          (example_push [example_spec ''refs/heads/main'' ''refs/heads/main'' 2 1])
          [\<lparr>ref = ''refs/heads/other'', msg = None\<rparr>, \<lparr>ref = ''refs/heads/main'', msg = None\<rparr>]
          \<lparr>t_error = 0, remote_ref_name = [], t_log = []\<rparr> =
        update_tips_loop (example_env True) (Some (example_callbacks 0))
          (example_push [example_spec ''refs/heads/main'' ''refs/heads/main'' 2 1])
          [\<lparr>ref = ''refs/heads/main'', msg = None\<rparr>] f'"
proof -
  let ?st = "\<lparr>ref = ''refs/heads/other'', msg = None\<rparr>"
  let ?push = "example_push [example_spec ''refs/heads/main'' ''refs/heads/main'' 2 1]"
  let ?f = "\<lparr>t_error = 0, remote_ref_name = [], t_log = []\<rparr>"
  have h1: "msg ?st = None"
    by simp
  have h2: "git_remote__matching_refspec (remote (example_env True)) (ref ?st) = None \<or>
         (\<exists>fs. git_remote__matching_refspec (remote (example_env True)) (ref ?st) = Some fs \<and>
               0 \<le> fst (git_refspec_transform (remote (example_env True)) (remote_ref_name ?f) fs (ref ?st))) \<and>
         (\<forall>spec\<in>set (specs ?push). dst (refspec spec) \<noteq> ref ?st)"
    by (simp add: example_defs)
  show ?thesis
    using C10_unmatched_status_skipped [OF h1 h2, of "Some (example_callbacks 0)"
        "[\<lparr>ref = ''refs/heads/main'', msg = None\<rparr>]"]
    by simp
qed




subsection \<open>Deletions\<close>

lemma parse_refspec_zero:
  "parse_refspec env str log = (rc, Some spec, log') \<Longrightarrow> loid spec = 0 \<and> roid spec = 0"
  by (auto simp: parse_refspec_def split: prod.splits if_splits)

lemma find_push_spec_first:
  "\<forall>s\<in>set pre. dst (refspec s) \<noteq> dst (refspec spec) \<Longrightarrow>
     find_push_spec (pre @ spec # post) (dst (refspec spec)) = Some spec"
  by (induction pre) auto

lemma update_tips_loop_append:
  "update_tips_loop env callbacks push (a @ b) f =
     (case update_tips_loop env callbacks push a f of
        On_error f' \<Rightarrow> On_error f'
      | Continue f' \<Rightarrow> update_tips_loop env callbacks push b f')"
  by (induction a arbitrary: f) (auto split: flow.splits)

lemma update_tip_log:
  "\<exists>ext. t_log (frame_of (update_tip env callbacks push st f)) = t_log f @ ext"
  by (auto simp: update_tip_def fire_update_tips_def update_remote_ref_def Let_def
      split: option.splits prod.splits)

lemma update_tips_loop_log:
  "\<exists>ext. t_log (frame_of (update_tips_loop env callbacks push sts f)) = t_log f @ ext"
proof (induction sts arbitrary: f)
  case Nil
  then show ?case by simp
next
  case (Cons st rest)
  obtain e1 where e1: "t_log (frame_of (update_tip env callbacks push st f)) = t_log f @ e1"
    using update_tip_log by blast
  show ?case
  proof (cases "update_tip env callbacks push st f")
    case (Continue f')
    from Cons.IH [of f'] obtain e2 where
      "t_log (frame_of (update_tips_loop env callbacks push rest f')) = t_log f' @ e2"
      by blast
    with Continue e1 show ?thesis by simp
  next
    case (On_error f')
    with e1 show ?thesis by simp
  qed
qed

lemma git_push_update_tips_log:
  "snd (git_push_update_tips env callbacks push log) =
     t_log (frame_of (update_tips_loop env callbacks push (status push)
       \<lparr>t_error = 0, remote_ref_name = [], t_log = log\<rparr>))"
  by (simp add: git_push_update_tips_def split: flow.splits)

text \<open>
  The spec of a status is the first spec of the session with the destination of the
  status (lines 184 to 187). In the example the session holds \<^verbatim>\<open>refs/heads/main:refs/heads/main\<close>
  and then the deletion \<^verbatim>\<open>:refs/heads/main\<close>: on acceptance the tracking ref is created at
  commit 2, not deleted.
\<close>

theorem C8_counterexample:
  "git_push_update_tips (example_env True) None
     ((example_push [example_spec ''refs/heads/main'' ''refs/heads/main'' 2 1,
                     example_spec [] ''refs/heads/main'' 0 1])
        \<lparr>status := [\<lparr>ref = ''refs/heads/main'', msg = None\<rparr>]\<rparr>) [] =
   (0, [Reference_create ''refs/remotes/origin/main'' 2])"
  by (simp add: git_push_update_tips_def update_tip_def update_remote_ref_def
      fire_update_tips_def git_oid_iszero_def GIT_ENOTFOUND_def example_defs)

text \<open>
  C8, amended. Take a spec that \<^verbatim>\<open>parse_refspec\<close> made from a refspec with an empty source,
  in a session on which \<^verbatim>\<open>calculate_work\<close> succeeds. After work resolution its \<open>loid\<close> is
  still zero, and \<^verbatim>\<open>queue_objects\<close> ends exactly as it does on the session without this
  spec: same return code, same pack builder, same calls. When no spec before it in the
  session has the same destination, and \<^verbatim>\<open>git_push_update_tips\<close> reaches an accepted status
  of its destination that has a fetch mapping and an existing tracking ref, then
  \<^verbatim>\<open>git_push_update_tips\<close> calls \<^verbatim>\<open>git_reference_delete\<close> on the tracking ref.
\<close>

theorem C8_deletion:
  assumes "parse_refspec env str log0 = (rc0, Some spec, log1)"
    and "src (refspec spec) = []"
    and "specs push = pre @ spec # post"
    and "calculate_work env push log = (rc, push', log')"
    and "0 \<le> rc"
    and "\<forall>s\<in>set pre. dst (refspec s) \<noteq> dst (refspec spec)"
    and "update_tips_loop env callbacks (push'\<lparr>status := before @ st # after, unpack_ok := ok\<rparr>)
           before \<lparr>t_error = 0, remote_ref_name = [], t_log = tlog\<rparr> = Continue tf"
    and "msg st = None"
    and "ref st = dst (refspec spec)"
    and "git_remote__matching_refspec (remote env) (ref st) = Some fs"
    and "git_refspec_transform (remote env) (remote_ref_name tf) fs (ref st) = (rc', nm)"
    and "0 \<le> rc'"
    and "0 \<le> git_reference_lookup (refdb env) (t_log tf) nm"
  shows "specs push' =
           map (resolved_spec env (remote_refs push)) pre @
           resolved_spec env (remote_refs push) spec #
           map (resolved_spec env (remote_refs push)) post \<and>
         refspec (resolved_spec env (remote_refs push) spec) = refspec spec \<and>
         loid (resolved_spec env (remote_refs push) spec) = 0 \<and>
         queue_objects env push' qlog =
           map_option (\<lambda>(error, p, l). (error, p\<lparr>specs := specs push'\<rparr>, l))
             (queue_objects env
                (push'\<lparr>specs := map (resolved_spec env (remote_refs push)) pre @
                                 map (resolved_spec env (remote_refs push)) post\<rparr>) qlog) \<and>
         (\<exists>tl. snd (git_push_update_tips env callbacks
                      (push'\<lparr>status := before @ st # after, unpack_ok := ok\<rparr>) tlog) =
                t_log tf @ Reference_delete nm # tl)"
proof -
  let ?R = "resolved_spec env (remote_refs push)"
  let ?push2 = "push'\<lparr>status := before @ st # after, unpack_ok := ok\<rparr>"
  have z: "loid spec = 0"
    using parse_refspec_zero [OF assms(1)] by simp
  have nofail: "\<not> (\<exists>s\<in>set (specs push). src (refspec s) \<noteq> [] \<and>
         fst (git_reference_name_to_id (refdb env) (src (refspec s))) < 0)"
  proof
    assume "\<exists>s\<in>set (specs push). src (refspec s) \<noteq> [] \<and>
         fst (git_reference_name_to_id (refdb env) (src (refspec s))) < 0"
    from calculate_work_loop_fail [OF this] obtain sp ups m where
      "calculate_work_loop env (remote_refs push) (specs push) (updates push) log =
         (- 1, sp, ups, log @ [Giterr_set GITERR_REFERENCE m])"
      by blast
    with assms(4,5) show False by (simp add: calculate_work_def)
  qed
  then have "\<forall>s\<in>set (specs push). \<not> (src (refspec s) \<noteq> [] \<and>
         fst (git_reference_name_to_id (refdb env) (src (refspec s))) < 0)"
    by blast
  from calculate_work_loop_ok [OF this] assms(4)
  have "specs push' = map ?R (specs push)"
    by (auto simp: calculate_work_def)
  then have sp: "specs push' = map ?R pre @ ?R spec # map ?R post"
    by (simp add: assms(3))
  have a: "refspec (?R spec) = refspec spec" and b: "loid (?R spec) = 0"
    using assms(2) z by (simp_all add: resolved_spec_def)
  have skip: "queue_spec env (?R spec) g = Some (Continue g)" for g
    using b by (simp add: queue_spec_def git_oid_iszero_def)
  have loop: "queue_objects_loop env (map ?R pre @ ?R spec # map ?R post) g =
      queue_objects_loop env (map ?R pre @ map ?R post) g" for g
    by (simp add: queue_objects_loop_append skip split: option.splits flow.splits)
  have c: "queue_objects env push' qlog =
           map_option (\<lambda>(error, p, l). (error, p\<lparr>specs := specs push'\<rparr>, l))
             (queue_objects env (push'\<lparr>specs := map ?R pre @ map ?R post\<rparr>) qlog)"
    by (simp add: queue_objects_def sp loop queue_start_def
        split: option.splits flow.splits prod.splits)
  have "\<forall>s\<in>set (map ?R pre). dst (refspec s) \<noteq> dst (refspec (?R spec))"
    using assms(6) by (simp add: resolved_spec_def)
  from find_push_spec_first [OF this, of "map ?R post"]
  have fnd: "find_push_spec (specs ?push2) (ref st) = Some (?R spec)"
    by (simp add: sp assms(9) a)
  have ut: "update_tip env callbacks ?push2 st tf =
      fire_update_tips callbacks (?R spec)
        (update_remote_ref env (?R spec) (tf\<lparr>t_error := rc', remote_ref_name := nm\<rparr>))"
    using assms(8,10,11,12) fnd by (simp add: update_tip_def not_less)
  have "\<exists>tl. t_log (frame_of (update_tip env callbacks ?push2 st tf)) =
                  t_log tf @ Reference_delete nm # tl"
    unfolding ut using b assms(13)
    by (auto simp: fire_update_tips_def update_remote_ref_def git_oid_iszero_def Let_def
        split: option.splits)
  then obtain tl where
    tl: "t_log (frame_of (update_tip env callbacks ?push2 st tf)) = t_log tf @ Reference_delete nm # tl"
    by blast
  have "\<exists>ext. t_log (frame_of (update_tips_loop env callbacks ?push2 (st # after) tf)) =
          t_log tf @ Reference_delete nm # ext"
  proof (cases "update_tip env callbacks ?push2 st tf")
    case (Continue f')
    from update_tips_loop_log [of env callbacks ?push2 after f'] obtain e2 where
      "t_log (frame_of (update_tips_loop env callbacks ?push2 after f')) = t_log f' @ e2"
      by blast
    with Continue tl show ?thesis by simp
  next
    case (On_error f')
    with tl show ?thesis by simp
  qed
  then obtain ext where
    "t_log (frame_of (update_tips_loop env callbacks ?push2 (st # after) tf)) =
          t_log tf @ Reference_delete nm # ext"
    by blast
  then have d: "\<exists>tl. snd (git_push_update_tips env callbacks ?push2 tlog) =
                t_log tf @ Reference_delete nm # tl"
    using assms(7) by (simp add: git_push_update_tips_log update_tips_loop_append)
  from sp a b c d show ?thesis by blast
qed

text \<open>In the example, the refspec \<^verbatim>\<open>:refs/heads/old\<close>.\<close>

theorem C8_deletion_witness:
  "loid (resolved_spec (example_env True) (remote_refs (example_push []))
      \<lparr>refspec = \<lparr>src = [], dst = ''refs/heads/old'', force = False\<rparr>, loid = 0, roid = 0\<rparr>) = 0 \<and>
   (\<exists>tl. snd (git_push_update_tips (example_env True) None
       ((example_push [\<lparr>refspec = \<lparr>src = [], dst = ''refs/heads/old'', force = False\<rparr>,
                         loid = 0, roid = 0\<rparr>])
          \<lparr>updates := [\<lparr>src_refname = [], dst_refname = ''refs/heads/old'',
                        upd_src = 0, upd_dst = 0\<rparr>],
           status := [\<lparr>ref = ''refs/heads/old'', msg = None\<rparr>], unpack_ok := True\<rparr>) []) =
     Reference_delete ''refs/remotes/origin/old'' # tl)"
proof -
  let ?env = "example_env True"
  let ?spec = "\<lparr>refspec = \<lparr>src = [], dst = ''refs/heads/old'', force = False\<rparr>, loid = 0, roid = 0\<rparr>"
  let ?push = "example_push [?spec]"
  let ?push' = "?push\<lparr>updates := [\<lparr>src_refname = [], dst_refname = ''refs/heads/old'',
                               upd_src = 0, upd_dst = 0\<rparr>]\<rparr>"
  let ?st = "\<lparr>ref = ''refs/heads/old'', msg = None\<rparr>"
  let ?f = "\<lparr>t_error = 0, remote_ref_name = [], t_log = []\<rparr>"
  let ?fs = "\<lparr>src = ''refs/heads/*'', dst = ''refs/remotes/origin/*'', force = True\<rparr>"
  have h1: "parse_refspec ?env '':refs/heads/old'' [] = (0, Some ?spec, [])"
    by (simp add: parse_refspec_def check_rref_def git__prefixcmp_def example_defs)
  have h2: "src (refspec ?spec) = []" and h3: "specs ?push = [] @ ?spec # []"
    and h6: "\<forall>s\<in>set []. dst (refspec s) \<noteq> dst (refspec ?spec)"
    by (simp_all add: example_defs)
  have h4: "calculate_work ?env ?push [] = (0, ?push', [])"
    by (simp add: calculate_work_def add_update_def example_defs)
  have h7: "update_tips_loop ?env None (?push'\<lparr>status := [] @ ?st # [], unpack_ok := True\<rparr>) [] ?f =
      Continue ?f"
    by simp
  have h8: "msg ?st = None" and h9: "ref ?st = dst (refspec ?spec)"
    and h10: "git_remote__matching_refspec (remote ?env) (ref ?st) = Some ?fs"
    and h11: "git_refspec_transform (remote ?env) (remote_ref_name ?f) ?fs (ref ?st) =
        (0, ''refs/remotes/origin/old'')"
    and h13: "0 \<le> git_reference_lookup (refdb ?env) (t_log ?f) ''refs/remotes/origin/old''"
    by (simp_all add: example_defs)
  have pp: "remote_refs ?push = remote_refs (example_push [])"
    by (simp add: example_push_def)
  show ?thesis
    using C8_deletion [OF h1 h2 h3 h4 _ h6 h7 h8 h9 h10 h11 _ h13]
    unfolding pp by simp
qed

end
